theory Spec2Isabelle
  imports Complex_Main
begin

section \<open>Derived average rating (models/Course.js)\<close>

text \<open>
  The virtual \<open>averageRating\<close> of the Course schema:
  \<^verbatim>\<open>
  if (this.reviews && this.reviews.length > 0) {
      const sum = this.reviews.reduce((acc, review) => acc + review.rating, 0);
      return (sum / this.reviews.length).toFixed(1);
  }
  return 0;
  \<close>
  Ratings are taken to be whole numbers, as the data model of the specification has them
  (the Review schema checks \<open>min 1\<close> and \<open>max 5\<close>); their sum is then exact in
  JavaScript's number type. The quotient \<open>sum / length\<close> is an IEEE 754 binary64 division:
  the exact quotient rounded to the nearest value with a 53-bit significand, ties to the
  even significand. \<open>toFixed(1)\<close> takes the integer \<open>n\<close> for which \<open>n / 10\<close> is nearest to
  that binary value (the larger \<open>n\<close> on a tie) and prints it with one decimal.
  The getter returns a string in the first branch and the number \<open>0\<close> in the second.
\<close>

datatype js_value = JNumber int | JString string

text \<open>Rounding the quotient \<open>a / d\<close> to the nearest integer, ties to even.\<close>

definition round_nearest_even :: "nat \<Rightarrow> nat \<Rightarrow> nat" where
  "round_nearest_even a d =
     (let q = a div d; r = a mod d
      in if 2 * r < d then q
         else if d < 2 * r then q + 1
         else if even q then q else q + 1)"

text \<open>The number of binary digits of a natural number.\<close>

fun bit_length :: "nat \<Rightarrow> nat" where
  "bit_length n = (if n = 0 then 0 else Suc (bit_length (n div 2)))"

declare bit_length.simps [simp del]

text \<open>
  The binary64 quotient of two positive integers, as a significand \<open>m\<close> and a binary
  exponent \<open>e\<close>: the value is \<open>m * 2 ^ (e - 52)\<close>.  With \<open>fs\<close> and \<open>fn\<close> the bit lengths of
  \<open>s\<close> and \<open>n\<close>, the numbers \<open>s * 2 ^ fn\<close> and \<open>n * 2 ^ fs\<close> lie in the same binade, so their
  quotient lies strictly between 1/2 and 2 and one comparison fixes the exponent.
\<close>

definition double_div :: "nat \<Rightarrow> nat \<Rightarrow> nat \<times> int" where
  "double_div s n =
     (let fs = bit_length s; fn = bit_length n;
          S = s * 2 ^ fn; D = n * 2 ^ fs
      in if D \<le> S then (round_nearest_even (S * 2 ^ 52) D, int fs - int fn)
         else (round_nearest_even (S * 2 ^ 53) D, int fs - int fn - 1))"

text \<open>
  \<open>toFixed(1)\<close> of the value \<open>m * 2 ^ (e - 52)\<close>, as the number of tenths it prints:
  the floor of ten times the value plus one half.
\<close>

definition toFixed1_tenths :: "nat \<times> int \<Rightarrow> nat" where
  "toFixed1_tenths x =
     (case x of (m, e) \<Rightarrow>
        if 52 \<le> e then 10 * m * 2 ^ nat (e - 52)
        else (20 * m + 2 ^ nat (52 - e)) div 2 ^ nat (53 - e))"

text \<open>The rational number a significand and exponent stand for.\<close>

definition double_value :: "nat \<times> int \<Rightarrow> rat" where
  "double_value x = (case x of (m, e) \<Rightarrow> of_nat m * 2 powi (e - 52))"

definition digit_char :: "nat \<Rightarrow> char" where
  "digit_char d = ''0123456789'' ! d"

fun digits :: "nat \<Rightarrow> string" where
  "digits n = (if n < 10 then [digit_char n] else digits (n div 10) @ [digit_char (n mod 10)])"

declare digits.simps [simp del]

definition show_tenths :: "nat \<Rightarrow> string" where
  "show_tenths t = digits (t div 10) @ ''.'' @ digits (t mod 10)"

definition toFixed1 :: "nat \<times> int \<Rightarrow> string" where
  "toFixed1 x = show_tenths (toFixed1_tenths x)"

text \<open>
  The getter. \<open>None\<close> is a document whose \<open>reviews\<close> virtual has not been populated
  (\<open>this.reviews\<close> is undefined). A sum of zero gives the number zero, printed \<open>0.0\<close>.
\<close>

definition averageRating :: "nat list option \<Rightarrow> js_value" where
  "averageRating reviews =
     (case reviews of
        None \<Rightarrow> JNumber 0
      | Some rs \<Rightarrow>
          if length rs > 0 then
            (let sum = foldl (\<lambda>acc rating. acc + rating) 0 rs
             in if sum = 0 then JString (show_tenths 0)
                else JString (toFixed1 (double_div sum (length rs))))
          else JNumber 0)"

text \<open>
  The specification's words: the arithmetic mean of the ratings, rounded to one decimal
  place half-up; here as a number of tenths.
\<close>

definition mean_half_up_tenths :: "nat list \<Rightarrow> nat" where
  "mean_half_up_tenths rs = nat \<lfloor>10 * (of_nat (sum_list rs) / of_nat (length rs) :: rat) + 1 / 2\<rfloor>"

text \<open>The mean lies exactly halfway between two values with one decimal.\<close>

definition mean_on_tie :: "nat list \<Rightarrow> bool" where
  "mean_on_tie rs = (frac (10 * (of_nat (sum_list rs) / of_nat (length rs) :: rat)) = 1 / 2)"

text \<open>
  The mean is a whole number of quarters. A mean halfway between two values with one
  decimal is an odd number of twentieths; it is a binary fraction exactly when it is a
  whole number of quarters (it ends in .25 or .75).
\<close>

definition mean_in_quarters :: "nat list \<Rightarrow> bool" where
  "mean_in_quarters rs = (4 * sum_list rs mod length rs = 0)"

text \<open>The binary quotient \<open>sum / length\<close> lies below the mean.\<close>

definition quotient_below_mean :: "nat list \<Rightarrow> bool" where
  "quotient_below_mean rs =
     (double_value (double_div (sum_list rs) (length rs))
        < of_nat (sum_list rs) / of_nat (length rs))"

text \<open>Twenty ratings, seventeen of 1 and three of 2: their mean is 1.15.\<close>

definition tie_ratings :: "nat list" where
  "tie_ratings = [1, 1, 1, 1, 1, 1, 1, 1, 1, 1, 1, 1, 1, 1, 1, 1, 1, 2, 2, 2]"



section \<open>Documents and collections\<close>

text \<open>
  Object identifiers are natural numbers; a collection is the list of its documents, each
  paired with its \<open>_id\<close>, in insertion order. Mongoose's \<open>timestamps\<close> are not modelled.
  Number fields hold rationals (every finite double is one); strings are lists of
  8-bit characters, read as the code points U+0000 to U+00FF.
\<close>

type_synonym oid = nat

record user =
  u_email :: string
  u_password :: string
  u_role :: string
  u_profile :: "oid option"
  u_enrolledCourses :: "oid list"

record profile =
  p_user :: oid
  p_firstName :: string
  p_lastName :: string
  p_bio :: string
  p_avatar :: string
  p_phone :: string
  p_address :: string

record course =
  c_title :: string
  c_description :: string
  c_price :: rat
  c_image :: string
  c_level :: string
  c_duration :: rat
  c_instructor :: oid
  c_categories :: "oid list"
  c_enrolledStudents :: "oid list"
  c_isPublished :: bool

record category =
  k_name :: string
  k_description :: string
  k_courses :: "oid list"

record review =
  r_rating :: rat
  r_comment :: string
  r_user :: oid
  r_course :: oid

record db =
  users :: "(oid \<times> user) list"
  profiles :: "(oid \<times> profile) list"
  courses :: "(oid \<times> course) list"
  categories :: "(oid \<times> category) list"
  reviews :: "(oid \<times> review) list"
  next_id :: oid

definition empty_db :: db where
  "empty_db = \<lparr>users = [], profiles = [], courses = [], categories = [], reviews = [], next_id = 0\<rparr>"

text \<open>\<open>Model.findById\<close> is \<^const>\<open>map_of\<close>; the other collection operations:\<close>

definition insert_doc :: "(oid \<times> 'a) list \<Rightarrow> oid \<Rightarrow> 'a \<Rightarrow> (oid \<times> 'a) list" where
  "insert_doc coll i d = coll @ [(i, d)]"

definition update_many :: "(oid \<times> 'a) list \<Rightarrow> (oid \<Rightarrow> 'a \<Rightarrow> bool) \<Rightarrow> ('a \<Rightarrow> 'a) \<Rightarrow> (oid \<times> 'a) list" where
  "update_many coll sel f = map (\<lambda>(i, d). if sel i d then (i, f d) else (i, d)) coll"

definition update_by_id :: "(oid \<times> 'a) list \<Rightarrow> oid \<Rightarrow> ('a \<Rightarrow> 'a) \<Rightarrow> (oid \<times> 'a) list" where
  "update_by_id coll i f = update_many coll (\<lambda>j d. j = i) f"

definition delete_by_id :: "(oid \<times> 'a) list \<Rightarrow> oid \<Rightarrow> (oid \<times> 'a) list" where
  "delete_by_id coll i = filter (\<lambda>(j, d). j \<noteq> i) coll"

text \<open>The update operators \<open>$addToSet\<close> and \<open>$pull\<close> on an array field.\<close>

definition addToSet :: "'a \<Rightarrow> 'a list \<Rightarrow> 'a list" where
  "addToSet x xs = (if x \<in> set xs then xs else xs @ [x])"

definition pull :: "'a \<Rightarrow> 'a list \<Rightarrow> 'a list" where
  "pull x xs = filter (\<lambda>y. y \<noteq> x) xs"

section \<open>Schema setters and validators\<close>

text \<open>
  The white space of JavaScript (\<open>String.prototype.trim\<close> and the class \<open>\s\<close>) among these
  code points: the five control characters from tab to carriage return, the space and the
  no-break space.
\<close>

definition is_space :: "char \<Rightarrow> bool" where
  "is_space c = (c \<in> set [CHR '' '', CHR 0x09, CHR 0x0A, CHR 0x0B, CHR 0x0C, CHR 0x0D, CHR 0xA0])"

definition trim :: "string \<Rightarrow> string" where
  "trim s = rev (dropWhile is_space (rev (dropWhile is_space s)))"

text \<open>
  \<open>toLowerCase\<close> on one character: the letters A to Z, and the capital letters U+00C0 to
  U+00DE (the multiplication sign U+00D7 apart), 32 places up.
\<close>

definition upper_letters :: string where
  "upper_letters = ''ABCDEFGHIJKLMNOPQRSTUVWXYZ''
     @ [CHR 0xC0, CHR 0xC1, CHR 0xC2, CHR 0xC3, CHR 0xC4, CHR 0xC5, CHR 0xC6, CHR 0xC7,
        CHR 0xC8, CHR 0xC9, CHR 0xCA, CHR 0xCB, CHR 0xCC, CHR 0xCD, CHR 0xCE, CHR 0xCF,
        CHR 0xD0, CHR 0xD1, CHR 0xD2, CHR 0xD3, CHR 0xD4, CHR 0xD5, CHR 0xD6,
        CHR 0xD8, CHR 0xD9, CHR 0xDA, CHR 0xDB, CHR 0xDC, CHR 0xDD, CHR 0xDE]"

definition lower_letters :: string where
  "lower_letters = ''abcdefghijklmnopqrstuvwxyz''
     @ [CHR 0xE0, CHR 0xE1, CHR 0xE2, CHR 0xE3, CHR 0xE4, CHR 0xE5, CHR 0xE6, CHR 0xE7,
        CHR 0xE8, CHR 0xE9, CHR 0xEA, CHR 0xEB, CHR 0xEC, CHR 0xED, CHR 0xEE, CHR 0xEF,
        CHR 0xF0, CHR 0xF1, CHR 0xF2, CHR 0xF3, CHR 0xF4, CHR 0xF5, CHR 0xF6,
        CHR 0xF8, CHR 0xF9, CHR 0xFA, CHR 0xFB, CHR 0xFC, CHR 0xFD, CHR 0xFE]"

definition to_lower :: "char \<Rightarrow> char" where
  "to_lower c =
     (case map_of (zip upper_letters lower_letters) c of
        Some l \<Rightarrow> l | None \<Rightarrow> c)"

text \<open>The setters of \<open>email\<close> (\<open>lowercase: true, trim: true\<close>).\<close>

definition email_setter :: "string \<Rightarrow> string" where
  "email_setter e = trim (map to_lower e)"

text \<open>
  The regular expression \<open>/\S+@\S+\.\S+/\<close>, searched anywhere in the string: an \<open>@\<close>
  with a non-space character before it, followed by a run of non-space characters in
  which a dot has at least one character on each side.
\<close>

definition dot_inside :: "string \<Rightarrow> bool" where
  "dot_inside run = (CHR ''.'' \<in> set (butlast (tl run)))"

fun email_scan :: "bool \<Rightarrow> string \<Rightarrow> bool" where
  "email_scan prev [] = False"
| "email_scan prev (c # cs) =
     ((c = CHR ''@'' \<and> prev \<and> dot_inside (takeWhile (\<lambda>x. \<not> is_space x) cs))
      \<or> email_scan (\<not> is_space c) cs)"

definition email_match :: "string \<Rightarrow> bool" where
  "email_match e = email_scan False e"

definition roles_enum :: "string list" where
  "roles_enum = [''student'', ''instructor'', ''admin'']"

text \<open>User schema: email required and matching, password required with at least six
  characters, role in the enumeration.\<close>

definition validate_user :: "user \<Rightarrow> bool" where
  "validate_user u =
     (u_email u \<noteq> [] \<and> email_match (u_email u)
      \<and> u_password u \<noteq> [] \<and> 6 \<le> length (u_password u)
      \<and> u_role u \<in> set roles_enum)"

text \<open>Profile schema: names required (after trimming) and at most 50 characters, bio at
  most 500.\<close>

definition validate_profile :: "profile \<Rightarrow> bool" where
  "validate_profile p =
     (p_firstName p \<noteq> [] \<and> length (p_firstName p) \<le> 50
      \<and> p_lastName p \<noteq> [] \<and> length (p_lastName p) \<le> 50
      \<and> length (p_bio p) \<le> 500)"

definition level_debutant :: string where
  "level_debutant = ''d'' @ [CHR 0xE9] @ ''butant''"

definition level_intermediaire :: string where
  "level_intermediaire = ''interm'' @ [CHR 0xE9] @ ''diaire''"

definition level_avance :: string where
  "level_avance = ''avanc'' @ [CHR 0xE9]"

definition levels_enum :: "string list" where
  "levels_enum = [level_debutant, level_intermediaire, level_avance]"

text \<open>Course schema: title required (trimmed) and at most 100 characters, description
  required and at most 2000, price not negative, level in the enumeration.\<close>

definition validate_course :: "course \<Rightarrow> bool" where
  "validate_course c =
     (c_title c \<noteq> [] \<and> length (c_title c) \<le> 100
      \<and> c_description c \<noteq> [] \<and> length (c_description c) \<le> 2000
      \<and> 0 \<le> c_price c
      \<and> c_level c \<in> set levels_enum)"

text \<open>Category schema: name required (trimmed) and at most 50 characters, description at
  most 200.\<close>

definition validate_category :: "category \<Rightarrow> bool" where
  "validate_category k =
     (k_name k \<noteq> [] \<and> length (k_name k) \<le> 50 \<and> length (k_description k) \<le> 200)"

text \<open>Review schema: rating between 1 and 5, comment required and at most 1000 characters.\<close>

definition validate_review :: "review \<Rightarrow> bool" where
  "validate_review r =
     (1 \<le> r_rating r \<and> r_rating r \<le> 5 \<and> r_comment r \<noteq> [] \<and> length (r_comment r) \<le> 1000)"

text \<open>JavaScript truthiness of an optional string: neither undefined nor empty.\<close>

definition truthy :: "string option \<Rightarrow> bool" where
  "truthy x = (case x of None \<Rightarrow> False | Some v \<Rightarrow> v \<noteq> [])"


section \<open>Tokens, responses and the authentication middleware\<close>

text \<open>
  A JSON Web Token is opaque: it carries the account identifier it was signed for, and
  \<open>jwt.verify\<close> accepts it when its signature matches the secret and it has not expired;
  \<open>Malformed\<close> is any string that does not decode.
\<close>

datatype token = Token (tok_id: oid) (tok_signature_ok: bool) (tok_expired: bool) | Malformed

definition jwt_verify :: "token \<Rightarrow> oid option" where
  "jwt_verify t =
     (case t of
        Token i sig_ok expired \<Rightarrow> if sig_ok \<and> \<not> expired then Some i else None
      | Malformed \<Rightarrow> None)"

definition generateToken :: "oid \<Rightarrow> token" where
  "generateToken i = Token i True False"

text \<open>
  The \<open>Authorization\<close> header: absent, present without the \<open>Bearer\<close> prefix, or
  \<open>Bearer\<close> followed by what \<open>split(' ')[1]\<close> yields (\<open>None\<close> when nothing follows).
\<close>

datatype auth_header = NoHeader | NotBearer | Bearer "token option"

datatype payload = NoPayload | AuthPayload oid string token

datatype response = Response (status: nat) (payload: payload)

text \<open>\<open>req.user\<close>: the fields of the loaded account that the handlers read.\<close>

record principal =
  pr_id :: oid
  pr_role :: string

text \<open>
  \<open>protect\<close>. With a \<open>Bearer\<close> header the token is verified and \<open>req.user\<close> is set to the
  result of \<open>User.findById(decoded.id)\<close>, which is \<open>null\<close> (here \<open>None\<close>) when no such account
  is stored; \<open>next()\<close> is then called in either case. A failed verification answers 401 from
  the \<open>catch\<close> block, a missing header answers 401 from the final test.
  \<open>Inl\<close> is the error response, \<open>Inr\<close> the value of \<open>req.user\<close> handed to the next handler.
\<close>

definition protect :: "db \<Rightarrow> auth_header \<Rightarrow> response + principal option" where
  "protect s h =
     (case h of
        Bearer t \<Rightarrow>
          (case (case t of None \<Rightarrow> None | Some tok \<Rightarrow> jwt_verify tok) of
             None \<Rightarrow> Inl (Response 401 NoPayload)
           | Some i \<Rightarrow>
               Inr (case map_of (users s) i of
                      None \<Rightarrow> None
                    | Some u \<Rightarrow> Some \<lparr>pr_id = i, pr_role = u_role u\<rparr>))
      | _ \<Rightarrow> Inl (Response 401 NoPayload))"

text \<open>
  \<open>authorize(...roles)\<close>. Reading \<open>req.user.role\<close> of a \<open>null\<close> user throws a TypeError,
  which the error handler answers with 500 (the status was still 200).
\<close>

definition authorize :: "string list \<Rightarrow> principal option \<Rightarrow> response option" where
  "authorize roles req_user =
     (case req_user of
        None \<Rightarrow> Some (Response 500 NoPayload)
      | Some p \<Rightarrow> if pr_role p \<notin> set roles then Some (Response 403 NoPayload) else None)"

section \<open>The pre-save hook of the User schema and \<open>save\<close>\<close>

text \<open>
  The environment of a run: the hashing primitive (\<open>bcrypt.genSalt\<close> and \<open>bcrypt.hash\<close>
  together) and the comparison \<open>bcrypt.compare\<close>.
\<close>

record env =
  bcrypt_hash :: "string \<Rightarrow> string"
  bcrypt_compare :: "string \<Rightarrow> string \<Rightarrow> bool"

text \<open>
  \<^verbatim>\<open>
  userSchema.pre('save', async function (next) {
      if (!this.isModified('password')) {
          next();
      }
      const salt = await bcrypt.genSalt(10);
      this.password = await bcrypt.hash(this.password, salt);
  });
  \<close>
  No \<open>return\<close> follows \<open>next()\<close>: the body goes on to hash in both cases. The first
  component of the result is the document as it stands when \<open>next()\<close> is called
  (\<open>None\<close> when it is not called), the second the document when the body has finished.
\<close>

definition userSchema_pre_save :: "(string \<Rightarrow> string) \<Rightarrow> bool \<Rightarrow> user \<Rightarrow> user option \<times> user" where
  "userSchema_pre_save hash password_modified this =
     (let at_next = (if \<not> password_modified then Some this else None)
      in (at_next, this\<lparr>u_password := hash (u_password this)\<rparr>))"

text \<open>Another account already holds the email (the unique index).\<close>

definition email_taken :: "db \<Rightarrow> string \<Rightarrow> oid option \<Rightarrow> bool" where
  "email_taken s e self = list_ex (\<lambda>(i, u). u_email u = e \<and> Some i \<noteq> self) (users s)"

text \<open>
  \<open>user.save()\<close> for a stored account: validation, the hook, then the write, refused on a
  duplicate email. The hook calls \<open>next()\<close> synchronously, before its first \<open>await\<close>:
  Mongoose resumes the save there and builds the update from the document as it stands at
  that call. The assignment to \<open>this.password\<close> comes after the two \<open>await\<close>s and reaches
  only the document in memory, which no handler saves a second time. When the hook does
  not call \<open>next()\<close> (a new or modified password), the save resumes when the body has
  finished and writes the document it leaves.
  The result is \<open>None\<close> when the save is rejected (answered with 400).
\<close>

definition user_save :: "env \<Rightarrow> bool \<Rightarrow> oid \<Rightarrow> user \<Rightarrow> db \<Rightarrow> db option" where
  "user_save E password_modified i doc s =
     (if \<not> validate_user doc then None
      else
        (case userSchema_pre_save (bcrypt_hash E) password_modified doc of
           (at_next, finished) \<Rightarrow>
             let written = (case at_next of None \<Rightarrow> finished | Some d \<Rightarrow> d)
             in if email_taken s (u_email written) (Some i) then None
                else Some (s\<lparr>users := update_by_id (users s) i (\<lambda>_. written)\<rparr>)))"

section \<open>Request bodies\<close>

text \<open>
  A field of a JSON body is absent (\<open>None\<close>, JavaScript's \<open>undefined\<close>) or carries a value
  of the type the schema declares for it.
\<close>

record register_body =
  rb_email :: "string option"
  rb_password :: "string option"
  rb_firstName :: "string option"
  rb_lastName :: "string option"
  rb_role :: "string option"

record login_body =
  lb_email :: "string option"
  lb_password :: "string option"

record user_body =
  ub_email :: "string option"
  ub_role :: "string option"

record profile_body =
  pb_firstName :: "string option"
  pb_lastName :: "string option"
  pb_bio :: "string option"
  pb_avatar :: "string option"
  pb_phone :: "string option"
  pb_address :: "string option"

record course_body =
  cb_title :: "string option"
  cb_description :: "string option"
  cb_price :: "rat option"
  cb_image :: "string option"
  cb_level :: "string option"
  cb_duration :: "rat option"
  cb_categories :: "oid list option"
  cb_isPublished :: "bool option"
  cb_instructor :: "oid option"

record category_body =
  kb_name :: "string option"
  kb_description :: "string option"

record review_body =
  vb_rating :: "rat option"
  vb_comment :: "string option"
  vb_courseId :: "oid option"


text \<open>Assignments guarded by \<open>if (x)\<close> and by \<open>if (x !== undefined)\<close>.\<close>

definition set_truthy :: "string option \<Rightarrow> (string \<Rightarrow> 'a \<Rightarrow> 'a) \<Rightarrow> 'a \<Rightarrow> 'a" where
  "set_truthy x f d = (case x of None \<Rightarrow> d | Some v \<Rightarrow> if v \<noteq> [] then f v d else d)"

definition set_defined :: "'b option \<Rightarrow> ('b \<Rightarrow> 'a \<Rightarrow> 'a) \<Rightarrow> 'a \<Rightarrow> 'a" where
  "set_defined x f d = (case x of None \<Rightarrow> d | Some v \<Rightarrow> f v d)"

definition or_empty :: "string option \<Rightarrow> string" where
  "or_empty x = (case x of None \<Rightarrow> [] | Some v \<Rightarrow> v)"

section \<open>Auth controller\<close>

text \<open>
  \<open>User.create\<close>: validation, the pre-save hook on a new document (its password counts
  as modified, so \<open>next()\<close> is not called early), and the insertion under a fresh
  identifier.
\<close>

definition user_create :: "env \<Rightarrow> user \<Rightarrow> db \<Rightarrow> (oid \<times> db) option" where
  "user_create E doc s =
     (if \<not> validate_user doc then None
      else
        let finished = snd (userSchema_pre_save (bcrypt_hash E) True doc)
        in if email_taken s (u_email finished) None then None
           else Some (next_id s,
                      s\<lparr>users := insert_doc (users s) (next_id s) finished,
                        next_id := Suc (next_id s)\<rparr>))"

text \<open>
  \<open>register\<close>. The account is created first; the test on \<open>firstName\<close> and \<open>lastName\<close>
  comes after it, and \<open>Profile.create\<close> validates after that.
\<close>

definition register :: "env \<Rightarrow> register_body \<Rightarrow> db \<Rightarrow> response \<times> db" where
  "register E b s =
     (if (case rb_email b of None \<Rightarrow> False | Some e \<Rightarrow> email_taken s (email_setter e) None)
      then (Response 400 NoPayload, s)
      else
        let new_user = \<lparr>u_email = email_setter (or_empty (rb_email b)),
                        u_password = or_empty (rb_password b),
                        u_role = (if truthy (rb_role b) then or_empty (rb_role b) else ''student''),
                        u_profile = None,
                        u_enrolledCourses = []\<rparr>
        in case user_create E new_user s of
             None \<Rightarrow> (Response 400 NoPayload, s)
           | Some (uid, s1) \<Rightarrow>
               if \<not> truthy (rb_firstName b) \<or> \<not> truthy (rb_lastName b)
               then (Response 400 NoPayload, s1)
               else
                 let new_profile = \<lparr>p_user = uid,
                                    p_firstName = trim (or_empty (rb_firstName b)),
                                    p_lastName = trim (or_empty (rb_lastName b)),
                                    p_bio = [], p_avatar = [], p_phone = [], p_address = []\<rparr>
                 in if \<not> validate_profile new_profile
                       \<or> list_ex (\<lambda>(i, p). p_user p = uid) (profiles s1)
                    then (Response 400 NoPayload, s1)
                    else
                      let pid = next_id s1;
                          s2 = s1\<lparr>profiles := insert_doc (profiles s1) pid new_profile,
                                  next_id := Suc pid\<rparr>;
                          s3 = s2\<lparr>users := update_by_id (users s2) uid
                                                (\<lambda>u. u\<lparr>u_profile := Some pid\<rparr>)\<rparr>
                      in (Response 201 (AuthPayload uid (u_role new_user) (generateToken uid)), s3))"

text \<open>\<open>login\<close>; \<open>bcrypt.compare\<close> rejects an undefined password, answered with 500.\<close>

definition login :: "env \<Rightarrow> login_body \<Rightarrow> db \<Rightarrow> response \<times> db" where
  "login E b s =
     (case (case lb_email b of
              None \<Rightarrow> None
            | Some e \<Rightarrow> find (\<lambda>(i, u). u_email u = email_setter e) (users s)) of
        None \<Rightarrow> (Response 401 NoPayload, s)
      | Some (i, u) \<Rightarrow>
          (case lb_password b of
             None \<Rightarrow> (Response 500 NoPayload, s)
           | Some pw \<Rightarrow>
               if bcrypt_compare E pw (u_password u)
               then (Response 200 (AuthPayload i (u_role u) (generateToken i)), s)
               else (Response 401 NoPayload, s)))"

text \<open>\<open>getMe\<close> reads \<open>req.user._id\<close>; \<open>logout\<close> reads nothing.\<close>

definition getMe :: "principal option \<Rightarrow> db \<Rightarrow> response \<times> db" where
  "getMe req_user s =
     (case req_user of
        None \<Rightarrow> (Response 500 NoPayload, s)
      | Some p \<Rightarrow> (Response 200 NoPayload, s))"

definition logout :: "principal option \<Rightarrow> db \<Rightarrow> response \<times> db" where
  "logout req_user s = (Response 200 NoPayload, s)"

section \<open>User controller\<close>

definition getUserById :: "principal option \<Rightarrow> oid \<Rightarrow> db \<Rightarrow> response \<times> db" where
  "getUserById req_user i s =
     (case map_of (users s) i of
        Some u \<Rightarrow> (Response 200 NoPayload, s)
      | None \<Rightarrow> (Response 404 NoPayload, s))"

definition updateUser :: "env \<Rightarrow> principal option \<Rightarrow> oid \<Rightarrow> user_body \<Rightarrow> db \<Rightarrow> response \<times> db" where
  "updateUser E req_user i b s =
     (case map_of (users s) i of
        None \<Rightarrow> (Response 404 NoPayload, s)
      | Some user \<Rightarrow>
          (case req_user of
             None \<Rightarrow> (Response 500 NoPayload, s)
           | Some p \<Rightarrow>
               if pr_id p \<noteq> i \<and> pr_role p \<noteq> ''admin'' then (Response 403 NoPayload, s)
               else
                 let user1 = set_truthy (ub_email b) (\<lambda>v u. u\<lparr>u_email := email_setter v\<rparr>) user;
                     user2 = (if truthy (ub_role b) \<and> pr_role p = ''admin''
                              then user1\<lparr>u_role := or_empty (ub_role b)\<rparr> else user1)
                 in case user_save E False i user2 s of
                      None \<Rightarrow> (Response 400 NoPayload, s)
                    | Some s' \<Rightarrow> (Response 200 NoPayload, s')))"

definition deleteUser :: "oid \<Rightarrow> db \<Rightarrow> response \<times> db" where
  "deleteUser i s =
     (case map_of (users s) i of
        None \<Rightarrow> (Response 404 NoPayload, s)
      | Some user \<Rightarrow> (Response 200 NoPayload, s\<lparr>users := delete_by_id (users s) i\<rparr>))"

section \<open>Profile controller\<close>

definition updateProfile :: "principal option \<Rightarrow> oid \<Rightarrow> profile_body \<Rightarrow> db \<Rightarrow> response \<times> db" where
  "updateProfile req_user userId b s =
     (case req_user of
        None \<Rightarrow> (Response 500 NoPayload, s)
      | Some p \<Rightarrow>
          if pr_id p \<noteq> userId \<and> pr_role p \<noteq> ''admin'' then (Response 403 NoPayload, s)
          else
            (case find (\<lambda>(i, pf). p_user pf = userId) (profiles s) of
               None \<Rightarrow> (Response 404 NoPayload, s)
             | Some (pid, pf) \<Rightarrow>
                 let pf' = (set_defined (pb_address b) (\<lambda>v d. d\<lparr>p_address := v\<rparr>)
                            (set_defined (pb_phone b) (\<lambda>v d. d\<lparr>p_phone := v\<rparr>)
                            (set_defined (pb_avatar b) (\<lambda>v d. d\<lparr>p_avatar := v\<rparr>)
                            (set_defined (pb_bio b) (\<lambda>v d. d\<lparr>p_bio := v\<rparr>)
                            (set_truthy (pb_lastName b) (\<lambda>v d. d\<lparr>p_lastName := trim v\<rparr>)
                            (set_truthy (pb_firstName b) (\<lambda>v d. d\<lparr>p_firstName := trim v\<rparr>) pf))))))
                 in if \<not> validate_profile pf' then (Response 400 NoPayload, s)
                    else (Response 200 NoPayload,
                          s\<lparr>profiles := update_by_id (profiles s) pid (\<lambda>_. pf')\<rparr>)))"


section \<open>Course controller\<close>

text \<open>The two \<open>updateMany\<close> calls on the Category collection.\<close>

definition remove_course_from_categories :: "oid \<Rightarrow> db \<Rightarrow> db" where
  "remove_course_from_categories cid s =
     s\<lparr>categories := update_many (categories s) (\<lambda>i k. cid \<in> set (k_courses k))
                         (\<lambda>k. k\<lparr>k_courses := pull cid (k_courses k)\<rparr>)\<rparr>"

definition add_course_to_categories :: "oid \<Rightarrow> oid list \<Rightarrow> db \<Rightarrow> db" where
  "add_course_to_categories cid cats s =
     s\<lparr>categories := update_many (categories s) (\<lambda>i k. i \<in> set cats)
                         (\<lambda>k. k\<lparr>k_courses := addToSet cid (k_courses k)\<rparr>)\<rparr>"

text \<open>
  \<open>createCourse\<close>. The body is destructured into the eight fields the handler names;
  \<open>instructor\<close> is \<open>req.user._id\<close>. \<open>Course.create\<close> validates before it inserts.
  \<open>new_course\<close> is the document handed to \<open>Course.create\<close>.
\<close>

definition new_course :: "oid \<Rightarrow> course_body \<Rightarrow> rat \<Rightarrow> oid list \<Rightarrow> course" where
  "new_course instructor b price cats =
     \<lparr>c_title = trim (or_empty (cb_title b)),
      c_description = or_empty (cb_description b),
      c_price = price,
      c_image = or_empty (cb_image b),
      c_level = (case cb_level b of None \<Rightarrow> level_debutant | Some l \<Rightarrow> l),
      c_duration = (case cb_duration b of None \<Rightarrow> 0 | Some d \<Rightarrow> d),
      c_instructor = instructor,
      c_categories = cats,
      c_enrolledStudents = [],
      c_isPublished = (case cb_isPublished b of None \<Rightarrow> False | Some v \<Rightarrow> v)\<rparr>"

definition createCourse :: "principal option \<Rightarrow> course_body \<Rightarrow> db \<Rightarrow> response \<times> db" where
  "createCourse req_user b s =
     (case req_user of
        None \<Rightarrow> (Response 500 NoPayload, s)
      | Some p \<Rightarrow>
          (case cb_price b of
             None \<Rightarrow> (Response 400 NoPayload, s)
           | Some price \<Rightarrow>
               let cats = (case cb_categories b of None \<Rightarrow> [] | Some cs \<Rightarrow> cs);
                   doc = new_course (pr_id p) b price cats
               in if \<not> validate_course doc then (Response 400 NoPayload, s)
                  else
                    let cid = next_id s;
                        s1 = s\<lparr>courses := insert_doc (courses s) cid doc, next_id := Suc cid\<rparr>;
                        s2 = (if cats \<noteq> [] then add_course_to_categories cid cats s1 else s1)
                    in (Response 201 NoPayload, s2)))"

text \<open>
  \<open>updateCourse\<close>. The categories are synchronised before \<open>course.save()\<close>, which
  validates the document: a rejected save leaves the Category collection updated.
\<close>

text \<open>The assignments \<open>if (title) course.title = title; ...\<close> of \<open>updateCourse\<close>.\<close>

definition assign_course_fields :: "course_body \<Rightarrow> course \<Rightarrow> course" where
  "assign_course_fields b course =
     (set_defined (cb_isPublished b) (\<lambda>v c. c\<lparr>c_isPublished := v\<rparr>)
     (set_defined (cb_duration b) (\<lambda>v c. c\<lparr>c_duration := v\<rparr>)
     (set_truthy (cb_level b) (\<lambda>v c. c\<lparr>c_level := v\<rparr>)
     (set_defined (cb_image b) (\<lambda>v c. c\<lparr>c_image := v\<rparr>)
     (set_defined (cb_price b) (\<lambda>v c. c\<lparr>c_price := v\<rparr>)
     (set_truthy (cb_description b) (\<lambda>v c. c\<lparr>c_description := v\<rparr>)
     (set_truthy (cb_title b) (\<lambda>v c. c\<lparr>c_title := trim v\<rparr>) course)))))))"

definition updateCourse :: "principal option \<Rightarrow> oid \<Rightarrow> course_body \<Rightarrow> db \<Rightarrow> response \<times> db" where
  "updateCourse req_user cid b s =
     (case map_of (courses s) cid of
        None \<Rightarrow> (Response 404 NoPayload, s)
      | Some course \<Rightarrow>
          (case req_user of
             None \<Rightarrow> (Response 500 NoPayload, s)
           | Some p \<Rightarrow>
               if c_instructor course \<noteq> pr_id p \<and> pr_role p \<noteq> ''admin''
               then (Response 403 NoPayload, s)
               else
                 let c1 = assign_course_fields b course;
                     s1 = (case cb_categories b of
                             None \<Rightarrow> s
                           | Some cats \<Rightarrow>
                               add_course_to_categories cid cats (remove_course_from_categories cid s));
                     c2 = (case cb_categories b of
                             None \<Rightarrow> c1
                           | Some cats \<Rightarrow> c1\<lparr>c_categories := cats\<rparr>)
                 in if \<not> validate_course c2 then (Response 400 NoPayload, s1)
                    else (Response 200 NoPayload,
                          s1\<lparr>courses := update_by_id (courses s1) cid (\<lambda>_. c2)\<rparr>)))"

definition deleteCourse :: "principal option \<Rightarrow> oid \<Rightarrow> db \<Rightarrow> response \<times> db" where
  "deleteCourse req_user cid s =
     (case map_of (courses s) cid of
        None \<Rightarrow> (Response 404 NoPayload, s)
      | Some course \<Rightarrow>
          (case req_user of
             None \<Rightarrow> (Response 500 NoPayload, s)
           | Some p \<Rightarrow>
               if c_instructor course \<noteq> pr_id p \<and> pr_role p \<noteq> ''admin''
               then (Response 403 NoPayload, s)
               else
                 let s1 = remove_course_from_categories cid s;
                     s2 = s1\<lparr>users := update_many (users s1) (\<lambda>i u. cid \<in> set (u_enrolledCourses u))
                                          (\<lambda>u. u\<lparr>u_enrolledCourses := pull cid (u_enrolledCourses u)\<rparr>)\<rparr>
                 in (Response 200 NoPayload, s2\<lparr>courses := delete_by_id (courses s2) cid\<rparr>)))"

text \<open>
  \<open>enrollInCourse\<close> and \<open>unenrollFromCourse\<close>: the course side is changed on the loaded
  document and saved, the account side by \<open>findByIdAndUpdate\<close>.
\<close>

definition enrollInCourse :: "principal option \<Rightarrow> oid \<Rightarrow> db \<Rightarrow> response \<times> db" where
  "enrollInCourse req_user cid s =
     (case map_of (courses s) cid of
        None \<Rightarrow> (Response 404 NoPayload, s)
      | Some course \<Rightarrow>
          (case req_user of
             None \<Rightarrow> (Response 500 NoPayload, s)
           | Some p \<Rightarrow>
               if pr_id p \<in> set (c_enrolledStudents course) then (Response 400 NoPayload, s)
               else
                 let course' = course\<lparr>c_enrolledStudents := c_enrolledStudents course @ [pr_id p]\<rparr>
                 in if \<not> validate_course course' then (Response 400 NoPayload, s)
                    else
                      let s1 = s\<lparr>courses := update_by_id (courses s) cid (\<lambda>_. course')\<rparr>;
                          s2 = s1\<lparr>users := update_by_id (users s1) (pr_id p)
                                   (\<lambda>u. u\<lparr>u_enrolledCourses := addToSet cid (u_enrolledCourses u)\<rparr>)\<rparr>
                      in (Response 200 NoPayload, s2)))"

definition unenrollFromCourse :: "principal option \<Rightarrow> oid \<Rightarrow> db \<Rightarrow> response \<times> db" where
  "unenrollFromCourse req_user cid s =
     (case map_of (courses s) cid of
        None \<Rightarrow> (Response 404 NoPayload, s)
      | Some course \<Rightarrow>
          (case req_user of
             None \<Rightarrow> (Response 500 NoPayload, s)
           | Some p \<Rightarrow>
               if pr_id p \<notin> set (c_enrolledStudents course) then (Response 400 NoPayload, s)
               else
                 let course' = course\<lparr>c_enrolledStudents :=
                                         filter (\<lambda>i. i \<noteq> pr_id p) (c_enrolledStudents course)\<rparr>
                 in if \<not> validate_course course' then (Response 400 NoPayload, s)
                    else
                      let s1 = s\<lparr>courses := update_by_id (courses s) cid (\<lambda>_. course')\<rparr>;
                          s2 = s1\<lparr>users := update_by_id (users s1) (pr_id p)
                                   (\<lambda>u. u\<lparr>u_enrolledCourses := pull cid (u_enrolledCourses u)\<rparr>)\<rparr>
                      in (Response 200 NoPayload, s2)))"


section \<open>Category controller\<close>

definition name_taken :: "db \<Rightarrow> string \<Rightarrow> oid option \<Rightarrow> bool" where
  "name_taken s n self = list_ex (\<lambda>(i, k). k_name k = n \<and> Some i \<noteq> self) (categories s)"

definition createCategory :: "category_body \<Rightarrow> db \<Rightarrow> response \<times> db" where
  "createCategory b s =
     (if (case kb_name b of None \<Rightarrow> False | Some n \<Rightarrow> name_taken s (trim n) None)
      then (Response 400 NoPayload, s)
      else
        let doc = \<lparr>k_name = trim (or_empty (kb_name b)),
                   k_description = or_empty (kb_description b),
                   k_courses = []\<rparr>
        in if \<not> validate_category doc then (Response 400 NoPayload, s)
           else (Response 201 NoPayload,
                 s\<lparr>categories := insert_doc (categories s) (next_id s) doc,
                   next_id := Suc (next_id s)\<rparr>))"

definition updateCategory :: "oid \<Rightarrow> category_body \<Rightarrow> db \<Rightarrow> response \<times> db" where
  "updateCategory kid b s =
     (case map_of (categories s) kid of
        None \<Rightarrow> (Response 404 NoPayload, s)
      | Some cat \<Rightarrow>
          let cat' = (set_defined (kb_description b) (\<lambda>v k. k\<lparr>k_description := v\<rparr>)
                      (set_truthy (kb_name b) (\<lambda>v k. k\<lparr>k_name := trim v\<rparr>) cat))
          in if \<not> validate_category cat' \<or> name_taken s (k_name cat') (Some kid)
             then (Response 400 NoPayload, s)
             else (Response 200 NoPayload,
                   s\<lparr>categories := update_by_id (categories s) kid (\<lambda>_. cat')\<rparr>))"

text \<open>\<open>deleteCategory\<close> removes the category and nothing else.\<close>

definition deleteCategory :: "oid \<Rightarrow> db \<Rightarrow> response \<times> db" where
  "deleteCategory kid s =
     (case map_of (categories s) kid of
        None \<Rightarrow> (Response 404 NoPayload, s)
      | Some cat \<Rightarrow> (Response 200 NoPayload, s\<lparr>categories := delete_by_id (categories s) kid\<rparr>))"

section \<open>Review controller\<close>

definition createReview :: "principal option \<Rightarrow> review_body \<Rightarrow> db \<Rightarrow> response \<times> db" where
  "createReview req_user b s =
     (case (case vb_courseId b of None \<Rightarrow> None | Some cid \<Rightarrow> map_option (\<lambda>c. cid) (map_of (courses s) cid)) of
        None \<Rightarrow> (Response 404 NoPayload, s)
      | Some cid \<Rightarrow>
          (case req_user of
             None \<Rightarrow> (Response 500 NoPayload, s)
           | Some p \<Rightarrow>
               if list_ex (\<lambda>(i, r). r_user r = pr_id p \<and> r_course r = cid) (reviews s)
               then (Response 400 NoPayload, s)
               else
                 (case vb_rating b of
                    None \<Rightarrow> (Response 400 NoPayload, s)
                  | Some rating \<Rightarrow>
                      let doc = \<lparr>r_rating = rating, r_comment = or_empty (vb_comment b),
                                 r_user = pr_id p, r_course = cid\<rparr>
                      in if \<not> validate_review doc then (Response 400 NoPayload, s)
                         else (Response 201 NoPayload,
                               s\<lparr>reviews := insert_doc (reviews s) (next_id s) doc,
                                 next_id := Suc (next_id s)\<rparr>))))"

definition updateReview :: "principal option \<Rightarrow> oid \<Rightarrow> review_body \<Rightarrow> db \<Rightarrow> response \<times> db" where
  "updateReview req_user rid b s =
     (case map_of (reviews s) rid of
        None \<Rightarrow> (Response 404 NoPayload, s)
      | Some rv \<Rightarrow>
          (case req_user of
             None \<Rightarrow> (Response 500 NoPayload, s)
           | Some p \<Rightarrow>
               if r_user rv \<noteq> pr_id p \<and> pr_role p \<noteq> ''admin'' then (Response 403 NoPayload, s)
               else
                 let rev1 = (case vb_rating b of
                               None \<Rightarrow> rv
                             | Some v \<Rightarrow> if v \<noteq> 0 then rv\<lparr>r_rating := v\<rparr> else rv);
                     rev2 = set_truthy (vb_comment b) (\<lambda>v r. r\<lparr>r_comment := v\<rparr>) rev1
                 in if \<not> validate_review rev2 then (Response 400 NoPayload, s)
                    else (Response 200 NoPayload,
                          s\<lparr>reviews := update_by_id (reviews s) rid (\<lambda>_. rev2)\<rparr>)))"

definition deleteReview :: "principal option \<Rightarrow> oid \<Rightarrow> db \<Rightarrow> response \<times> db" where
  "deleteReview req_user rid s =
     (case map_of (reviews s) rid of
        None \<Rightarrow> (Response 404 NoPayload, s)
      | Some rv \<Rightarrow>
          (case req_user of
             None \<Rightarrow> (Response 500 NoPayload, s)
           | Some p \<Rightarrow>
               if r_user rv \<noteq> pr_id p \<and> pr_role p \<noteq> ''admin'' then (Response 403 NoPayload, s)
               else (Response 200 NoPayload, s\<lparr>reviews := delete_by_id (reviews s) rid\<rparr>)))"

section \<open>Routes\<close>

text \<open>
  The requests that write to the store, and the reads used below. Each route is its
  middleware chain: \<open>protect\<close>, then \<open>authorize\<close> where the router names roles, then the
  handler.
\<close>

datatype request =
    Register register_body
  | Login login_body
  | GetMe
  | Logout
  | GetUserById oid
  | UpdateUser oid user_body
  | DeleteUser oid
  | UpdateProfile oid profile_body
  | CreateCourse course_body
  | UpdateCourse oid course_body
  | DeleteCourse oid
  | EnrollInCourse oid
  | UnenrollFromCourse oid
  | CreateCategory category_body
  | UpdateCategory oid category_body
  | DeleteCategory oid
  | CreateReview review_body
  | UpdateReview oid review_body
  | DeleteReview oid

definition with_protect :: "db \<Rightarrow> auth_header \<Rightarrow> (principal option \<Rightarrow> response \<times> db) \<Rightarrow> response \<times> db" where
  "with_protect s h handler =
     (case protect s h of Inl r \<Rightarrow> (r, s) | Inr req_user \<Rightarrow> handler req_user)"

definition with_authorize :: "string list \<Rightarrow> db \<Rightarrow> principal option \<Rightarrow> response \<times> db \<Rightarrow> response \<times> db" where
  "with_authorize roles s req_user handler =
     (case authorize roles req_user of Some r \<Rightarrow> (r, s) | None \<Rightarrow> handler)"

fun route :: "env \<Rightarrow> auth_header \<Rightarrow> request \<Rightarrow> db \<Rightarrow> response \<times> db" where
  "route E h (Register b) s = register E b s"
| "route E h (Login b) s = login E b s"
| "route E h GetMe s = with_protect s h (\<lambda>u. getMe u s)"
| "route E h Logout s = with_protect s h (\<lambda>u. logout u s)"
| "route E h (GetUserById i) s = with_protect s h (\<lambda>u. getUserById u i s)"
| "route E h (UpdateUser i b) s = with_protect s h (\<lambda>u. updateUser E u i b s)"
| "route E h (DeleteUser i) s =
     with_protect s h (\<lambda>u. with_authorize [''admin''] s u (deleteUser i s))"
| "route E h (UpdateProfile i b) s = with_protect s h (\<lambda>u. updateProfile u i b s)"
| "route E h (CreateCourse b) s =
     with_protect s h (\<lambda>u. with_authorize [''instructor'', ''admin''] s u (createCourse u b s))"
| "route E h (UpdateCourse i b) s =
     with_protect s h (\<lambda>u. with_authorize [''instructor'', ''admin''] s u (updateCourse u i b s))"
| "route E h (DeleteCourse i) s =
     with_protect s h (\<lambda>u. with_authorize [''instructor'', ''admin''] s u (deleteCourse u i s))"
| "route E h (EnrollInCourse i) s = with_protect s h (\<lambda>u. enrollInCourse u i s)"
| "route E h (UnenrollFromCourse i) s = with_protect s h (\<lambda>u. unenrollFromCourse u i s)"
| "route E h (CreateCategory b) s =
     with_protect s h (\<lambda>u. with_authorize [''admin''] s u (createCategory b s))"
| "route E h (UpdateCategory i b) s =
     with_protect s h (\<lambda>u. with_authorize [''admin''] s u (updateCategory i b s))"
| "route E h (DeleteCategory i) s =
     with_protect s h (\<lambda>u. with_authorize [''admin''] s u (deleteCategory i s))"
| "route E h (CreateReview b) s = with_protect s h (\<lambda>u. createReview u b s)"
| "route E h (UpdateReview i b) s = with_protect s h (\<lambda>u. updateReview u i b s)"
| "route E h (DeleteReview i) s = with_protect s h (\<lambda>u. deleteReview u i s)"


section \<open>Concrete runs\<close>

text \<open>
  A stand-in environment for concrete runs: the hash prefixes its argument the way a
  bcrypt hash begins, and comparison undoes it.
\<close>

definition stub_env :: env where
  "stub_env =
     \<lparr>bcrypt_hash = (\<lambda>pw. ''$2a$10$'' @ pw),
      bcrypt_compare = (\<lambda>pw h. h = ''$2a$10$'' @ pw)\<rparr>"

definition reg_body :: "string \<Rightarrow> string option \<Rightarrow> string option \<Rightarrow> register_body" where
  "reg_body email first_name role =
     \<lparr>rb_email = Some email, rb_password = Some ''secret1'', rb_firstName = first_name,
      rb_lastName = Some ''B'', rb_role = role\<rparr>"


definition admin_signup :: register_body where
  "admin_signup = reg_body ''eve@x.com'' (Some ''E'') (Some ''admin'')"

definition instructor_signup :: register_body where
  "instructor_signup = reg_body ''ann@x.com'' (Some ''A'') (Some ''instructor'')"

definition student_signup :: register_body where
  "student_signup = reg_body ''bob@x.com'' (Some ''B'') None"

text \<open>The store after an administrator (account 0) and a student (account 2) have
  registered, in this order.\<close>

definition two_accounts :: "env \<Rightarrow> db" where
  "two_accounts E = snd (register E student_signup (snd (register E admin_signup empty_db)))"

text \<open>The same store after the administrator has deleted the student's account.\<close>

definition student_deleted :: "env \<Rightarrow> db" where
  "student_deleted E =
     snd (route E (Bearer (Some (generateToken 0))) (DeleteUser 2) (two_accounts E))"

definition course_input :: "oid list option \<Rightarrow> oid option \<Rightarrow> course_body" where
  "course_input cats instructor =
     \<lparr>cb_title = Some ''Intro'', cb_description = Some ''Basics'', cb_price = Some 0,
      cb_image = None, cb_level = None, cb_duration = None, cb_categories = cats,
      cb_isPublished = None, cb_instructor = instructor\<rparr>"

definition email_update :: user_body where
  "email_update = \<lparr>ub_email = Some ''new@x.com'', ub_role = None\<rparr>"

definition role_update :: user_body where
  "role_update = \<lparr>ub_email = None, ub_role = Some ''admin''\<rparr>"

text \<open>A sequence of requests, each with its \<open>Authorization\<close> header, run in order.\<close>

definition run :: "env \<Rightarrow> (auth_header \<times> request) list \<Rightarrow> db \<Rightarrow> db" where
  "run E reqs s = foldl (\<lambda>st (h, req). snd (route E h req st)) s reqs"

definition bearer :: "oid \<Rightarrow> auth_header" where
  "bearer i = Bearer (Some (generateToken i))"

text \<open>An instructor (account 0) registers and creates course 2; a student (account 3)
  registers and enrols; an administrator (account 5) registers and deletes the student.\<close>

definition enrolled_student_deleted :: db where
  "enrolled_student_deleted =
     run stub_env
       [(NoHeader, Register instructor_signup),
        (bearer 0, CreateCourse (course_input None None)),
        (NoHeader, Register student_signup),
        (bearer 3, EnrollInCourse 2),
        (NoHeader, Register admin_signup),
        (bearer 5, DeleteUser 3)]
       empty_db"

text \<open>The first three of these requests: course 2 and the student's account 3 are stored.\<close>

definition course_and_student :: db where
  "course_and_student =
     run stub_env
       [(NoHeader, Register instructor_signup),
        (bearer 0, CreateCourse (course_input None None)),
        (NoHeader, Register student_signup)]
       empty_db"

text \<open>An administrator (account 0) registers, creates category 2, creates course 3 in
  that category, and deletes the category.\<close>

definition category_deleted :: db where
  "category_deleted =
     run stub_env
       [(NoHeader, Register admin_signup),
        (bearer 0, CreateCategory \<lparr>kb_name = Some ''Web'', kb_description = None\<rparr>),
        (bearer 0, CreateCourse (course_input (Some [2]) None)),
        (bearer 0, DeleteCategory 2)]
       empty_db"

section \<open>States and properties of the specification\<close>

text \<open>The states the API reaches from the empty store.\<close>

inductive reachable :: "db \<Rightarrow> bool" where
  reachable_empty: "reachable empty_db"
| reachable_route: "reachable s \<Longrightarrow> reachable (snd (route E h req s))"

definition role_of :: "db \<Rightarrow> oid \<Rightarrow> string option" where
  "role_of s uid = map_option u_role (map_of (users s) uid)"

definition students_of :: "db \<Rightarrow> oid \<Rightarrow> oid list option" where
  "students_of s cid = map_option c_enrolledStudents (map_of (courses s) cid)"

definition enrolled_of :: "db \<Rightarrow> oid \<Rightarrow> oid list option" where
  "enrolled_of s uid = map_option u_enrolledCourses (map_of (users s) uid)"

definition categories_of :: "db \<Rightarrow> oid \<Rightarrow> oid list option" where
  "categories_of s cid = map_option c_categories (map_of (courses s) cid)"

definition members_of :: "db \<Rightarrow> oid \<Rightarrow> oid list option" where
  "members_of s kid = map_option k_courses (map_of (categories s) kid)"

text \<open>
  The enrolment relation read from the two sides: the pairs a stored course lists, and
  the pairs a stored account lists. The specification asks that they be the same.
\<close>

definition enrollment_sync :: "db \<Rightarrow> bool" where
  "enrollment_sync s =
     (\<forall>cid uid. (\<exists>st. students_of s cid = Some st \<and> uid \<in> set st)
                = (\<exists>ec. enrolled_of s uid = Some ec \<and> cid \<in> set ec))"

text \<open>
  What holds in every reachable state: the two sides agree on every stored course and
  stored account, and an account lists stored courses only.
\<close>

definition stored_enrollment_sync :: "db \<Rightarrow> bool" where
  "stored_enrollment_sync s =
     ((\<forall>cid st uid ec. students_of s cid = Some st \<and> enrolled_of s uid = Some ec
          \<longrightarrow> (uid \<in> set st) = (cid \<in> set ec))
      \<and> (\<forall>uid ec cid. enrolled_of s uid = Some ec \<and> cid \<in> set ec \<longrightarrow> students_of s cid \<noteq> None))"

text \<open>Identifiers in use have been issued: they lie below the next identifier.\<close>

definition enrollment_ids_issued :: "db \<Rightarrow> bool" where
  "enrollment_ids_issued s =
     ((\<forall>cid st. students_of s cid = Some st \<longrightarrow> cid < next_id s \<and> (\<forall>uid \<in> set st. uid < next_id s))
      \<and> (\<forall>uid ec. enrolled_of s uid = Some ec \<longrightarrow> uid < next_id s))"

text \<open>The category relation read from the two sides, as the specification states it.\<close>

definition category_sync :: "db \<Rightarrow> bool" where
  "category_sync s =
     (\<forall>cid kid. (\<exists>cs. categories_of s cid = Some cs \<and> kid \<in> set cs)
                = (\<exists>ms. members_of s kid = Some ms \<and> cid \<in> set ms))"

text \<open>The same, for stored courses and stored categories.\<close>

definition stored_category_sync :: "db \<Rightarrow> bool" where
  "stored_category_sync s =
     (\<forall>cid cs kid ms. categories_of s cid = Some cs \<and> members_of s kid = Some ms
        \<longrightarrow> (kid \<in> set cs) = (cid \<in> set ms))"

definition category_ids_issued :: "db \<Rightarrow> bool" where
  "category_ids_issued s =
     ((\<forall>cid cs. categories_of s cid = Some cs \<longrightarrow> cid < next_id s \<and> (\<forall>kid \<in> set cs. kid < next_id s))
      \<and> (\<forall>kid ms. members_of s kid = Some ms \<longrightarrow> kid < next_id s \<and> (\<forall>cid \<in> set ms. cid < next_id s)))"

text \<open>The category identifiers a request names have been issued.\<close>

fun request_ids_issued :: "db \<Rightarrow> request \<Rightarrow> bool" where
  "request_ids_issued s (CreateCourse b) =
     (case cb_categories b of None \<Rightarrow> True | Some cats \<Rightarrow> list_all (\<lambda>k. k < next_id s) cats)"
| "request_ids_issued s (UpdateCourse i b) =
     (case cb_categories b of None \<Rightarrow> True | Some cats \<Rightarrow> list_all (\<lambda>k. k < next_id s) cats)"
| "request_ids_issued s req = True"

text \<open>A course update that \<open>save\<close> rejects.\<close>

fun rejected_course_update :: "request \<Rightarrow> response \<Rightarrow> bool" where
  "rejected_course_update (UpdateCourse i b) r = (status r = 400)"
| "rejected_course_update req r = False"

section \<open>Evaluation rules\<close>

lemmas string_defs = email_setter_def trim_def to_lower_def upper_letters_def lower_letters_def
  is_space_def email_match_def
  dot_inside_def truthy_def or_empty_def set_truthy_def set_defined_def

lemmas validator_defs = validate_user_def validate_profile_def validate_course_def
  validate_category_def validate_review_def roles_enum_def levels_enum_def level_debutant_def
  level_intermediaire_def level_avance_def

lemmas collection_defs = insert_doc_def update_many_def update_by_id_def delete_by_id_def
  addToSet_def pull_def email_taken_def name_taken_def

lemmas middleware_defs = protect_def authorize_def jwt_verify_def generateToken_def
  with_protect_def with_authorize_def

lemmas user_handler_defs = register_def user_create_def user_save_def userSchema_pre_save_def
  updateUser_def deleteUser_def login_def getMe_def logout_def getUserById_def

lemmas course_handler_defs = createCourse_def new_course_def updateCourse_def
  assign_course_fields_def deleteCourse_def
  enrollInCourse_def unenrollFromCourse_def remove_course_from_categories_def
  add_course_to_categories_def

lemmas category_handler_defs = createCategory_def updateCategory_def deleteCategory_def

lemmas signup_defs = reg_body_def admin_signup_def instructor_signup_def student_signup_def
  empty_db_def

lemmas run_defs = string_defs validator_defs collection_defs middleware_defs user_handler_defs
  signup_defs Let_def

lemmas rating_defs = averageRating_def double_div_def round_nearest_even_def Let_def
  bit_length.simps toFixed1_def toFixed1_tenths_def show_tenths_def digits.simps digit_char_def

section \<open>Lookups after the collection operations\<close>

lemma map_of_insert_doc:
  "map_of (insert_doc coll k v) i =
     (case map_of coll i of Some d \<Rightarrow> Some d | None \<Rightarrow> if i = k then Some v else None)"
  by (simp add: insert_doc_def map_add_def split: option.splits)

lemma map_of_update_many:
  "map_of (update_many coll sel f) i = map_option (\<lambda>d. if sel i d then f d else d) (map_of coll i)"
  unfolding update_many_def by (induction coll) auto

lemma map_of_update_by_id:
  "map_of (update_by_id coll k f) i = (if i = k then map_option f (map_of coll k) else map_of coll i)"
  by (auto simp: update_by_id_def map_of_update_many option.map_ident cong: option.map_cong)

lemma map_of_delete_by_id:
  "map_of (delete_by_id coll k) i = (if i = k then None else map_of coll i)"
  unfolding delete_by_id_def by (induction coll) auto

lemmas map_of_collection = map_of_insert_doc map_of_update_many map_of_update_by_id
  map_of_delete_by_id

lemma with_authorize_cases:
  "with_authorize roles s u k = (r, s') \<Longrightarrow> s' = s \<or> k = (r, s')"
  by (auto simp: with_authorize_def split: option.splits)

lemma with_protect_cases:
  "with_protect s h k = (r, s') \<Longrightarrow> s' = s \<or> (\<exists>u. protect s h = Inr u \<and> k u = (r, s'))"
  by (auto simp: with_protect_def split: sum.splits)

section \<open>Registration\<close>

lemma register_admin_run:
  "register E admin_signup empty_db =
     (Response 201 (AuthPayload 0 ''admin'' (generateToken 0)),
      \<lparr>users = [(0, \<lparr>u_email = ''eve@x.com'', u_password = bcrypt_hash E ''secret1'',
                      u_role = ''admin'', u_profile = Some 1, u_enrolledCourses = []\<rparr>)],
       profiles = [(1, \<lparr>p_user = 0, p_firstName = ''E'', p_lastName = ''B'', p_bio = [],
                         p_avatar = [], p_phone = [], p_address = []\<rparr>)],
       courses = [], categories = [], reviews = [], next_id = 2\<rparr>)"
  by (simp add: run_defs)

lemma register_instructor_run:
  "register E instructor_signup empty_db =
     (Response 201 (AuthPayload 0 ''instructor'' (generateToken 0)),
      \<lparr>users = [(0, \<lparr>u_email = ''ann@x.com'', u_password = bcrypt_hash E ''secret1'',
                      u_role = ''instructor'', u_profile = Some 1, u_enrolledCourses = []\<rparr>)],
       profiles = [(1, \<lparr>p_user = 0, p_firstName = ''A'', p_lastName = ''B'', p_bio = [],
                         p_avatar = [], p_phone = [], p_address = []\<rparr>)],
       courses = [], categories = [], reviews = [], next_id = 2\<rparr>)"
  by (simp add: run_defs)

text \<open>
  C10. A registration request without any credential that supplies the role \<open>admin\<close> (or
  \<open>instructor\<close>) is answered with 201; the account it creates is stored with the supplied
  role, not with the default \<open>student\<close>; and the token in the answer passes \<open>protect\<close> as
  that account, with that role.
\<close>

theorem register_stores_supplied_role:
  "fst (route E NoHeader (Register admin_signup) empty_db)
     = Response 201 (AuthPayload 0 ''admin'' (generateToken 0))
   \<and> map_option u_role (map_of (users (snd (route E NoHeader (Register admin_signup) empty_db))) 0)
     = Some ''admin''
   \<and> protect (snd (route E NoHeader (Register admin_signup) empty_db))
        (Bearer (Some (generateToken 0))) = Inr (Some \<lparr>pr_id = 0, pr_role = ''admin''\<rparr>)
   \<and> fst (route E NoHeader (Register instructor_signup) empty_db)
     = Response 201 (AuthPayload 0 ''instructor'' (generateToken 0))
   \<and> map_option u_role (map_of (users (snd (route E NoHeader (Register instructor_signup) empty_db))) 0)
     = Some ''instructor''
   \<and> protect (snd (route E NoHeader (Register instructor_signup) empty_db))
        (Bearer (Some (generateToken 0))) = Inr (Some \<lparr>pr_id = 0, pr_role = ''instructor''\<rparr>)"
  by (simp add: register_admin_run register_instructor_run middleware_defs)

text \<open>
  C3. Registration without \<open>firstName\<close> is answered with 400, but the account for the
  supplied email has been created before the names are tested, and it stays in the store
  (without a profile).
\<close>

theorem register_missing_name_keeps_account:
  "register E (reg_body ''a@x.com'' None None) empty_db =
     (Response 400 NoPayload,
      \<lparr>users = [(0, \<lparr>u_email = ''a@x.com'', u_password = bcrypt_hash E ''secret1'',
                      u_role = ''student'', u_profile = None, u_enrolledCourses = []\<rparr>)],
       profiles = [], courses = [], categories = [], reviews = [], next_id = 1\<rparr>)"
  by (simp add: run_defs)


theorem register_missing_name_keeps_account_witness:
  "fst (register stub_env (reg_body ''a@x.com'' None None) empty_db) = Response 400 NoPayload
   \<and> map_option u_email
        (map_of (users (snd (register stub_env (reg_body ''a@x.com'' None None) empty_db))) 0)
       = Some ''a@x.com''"
  using register_missing_name_keeps_account [of stub_env] by simp

theorem register_stores_supplied_role_witness:
  "status (fst (route stub_env NoHeader (Register admin_signup) empty_db)) = 201
   \<and> map_option u_role
        (map_of (users (snd (route stub_env NoHeader (Register admin_signup) empty_db))) 0)
       = Some ''admin''"
  using register_stores_supplied_role [of stub_env] by simp


section \<open>Roles\<close>

lemma register_role_of:
  "register E b s = (r, s') \<Longrightarrow> role_of s uid = Some ro \<Longrightarrow> role_of s' uid = Some ro"
  by (auto simp: register_def user_create_def role_of_def Let_def map_of_collection
      split: if_splits option.splits prod.splits)

lemma user_save_role_of:
  "user_save E m i doc s = Some s' \<Longrightarrow> role_of s i = Some (u_role doc)
     \<Longrightarrow> role_of s uid = Some ro \<Longrightarrow> role_of s' uid = Some ro"
  by (auto simp: user_save_def userSchema_pre_save_def role_of_def Let_def map_of_collection
      split: if_splits option.splits prod.splits)

lemma updateUser_role_of:
  assumes "updateUser E req_user i b s = (r, s')"
    and "\<forall>p. req_user = Some p \<longrightarrow> pr_role p \<noteq> ''admin''"
    and "role_of s uid = Some ro"
  shows "role_of s' uid = Some ro"
proof (cases "s' = s")
  case True
  with assms show ?thesis by simp
next
  case False
  let ?doc = "set_truthy (ub_email b) (\<lambda>v u. u\<lparr>u_email := email_setter v\<rparr>)"
  from False assms(1,2) obtain user where u: "map_of (users s) i = Some user"
    and sv: "user_save E False i (?doc user) s = Some s'"
    by (auto simp: updateUser_def Let_def split: option.splits if_splits)
  have "u_role (?doc user) = u_role user"
    by (simp add: set_truthy_def split: option.splits)
  with u have "role_of s i = Some (u_role (?doc user))"
    by (simp add: role_of_def)
  from user_save_role_of [OF sv this assms(3)] show ?thesis .
qed

lemma deleteCourse_role_of:
  "deleteCourse req_user i s = (r, s') \<Longrightarrow> role_of s' uid = role_of s uid"
  by (cases "map_of (users s) uid")
     (auto simp: deleteCourse_def remove_course_from_categories_def role_of_def Let_def
        map_of_collection split: if_splits option.splits)

lemma enrollInCourse_role_of:
  "enrollInCourse req_user i s = (r, s') \<Longrightarrow> role_of s' uid = role_of s uid"
  by (cases "map_of (users s) uid")
     (auto simp: enrollInCourse_def role_of_def Let_def map_of_collection
        split: if_splits option.splits)

lemma unenrollFromCourse_role_of:
  "unenrollFromCourse req_user i s = (r, s') \<Longrightarrow> role_of s' uid = role_of s uid"
  by (cases "map_of (users s) uid")
     (auto simp: unenrollFromCourse_def role_of_def Let_def map_of_collection
        split: if_splits option.splits)

lemma users_unchanged:
  "login E lb s = (r, s') \<Longrightarrow> users s' = users s"
  "getMe u s = (r, s') \<Longrightarrow> users s' = users s"
  "logout u s = (r, s') \<Longrightarrow> users s' = users s"
  "getUserById u i s = (r, s') \<Longrightarrow> users s' = users s"
  "updateProfile u i pb s = (r, s') \<Longrightarrow> users s' = users s"
  "createCourse u cb s = (r, s') \<Longrightarrow> users s' = users s"
  "updateCourse u i cb s = (r, s') \<Longrightarrow> users s' = users s"
  "createCategory kb s = (r, s') \<Longrightarrow> users s' = users s"
  "updateCategory i kb s = (r, s') \<Longrightarrow> users s' = users s"
  "deleteCategory i s = (r, s') \<Longrightarrow> users s' = users s"
  "createReview u vb s = (r, s') \<Longrightarrow> users s' = users s"
  "updateReview u i vb s = (r, s') \<Longrightarrow> users s' = users s"
  "deleteReview u i s = (r, s') \<Longrightarrow> users s' = users s"
  by (auto simp: login_def getMe_def logout_def getUserById_def updateProfile_def createCourse_def
      updateCourse_def createCategory_def updateCategory_def deleteCategory_def createReview_def
      updateReview_def deleteReview_def Let_def add_course_to_categories_def
      remove_course_from_categories_def
      split: if_splits option.splits prod.splits)

lemma admin_only_refused:
  "\<forall>p. u = Some p \<longrightarrow> pr_role p \<noteq> ''admin'' \<Longrightarrow> with_authorize [''admin''] s u k = (r, s')
     \<Longrightarrow> s' = s"
  by (auto simp: with_authorize_def authorize_def split: option.splits if_splits)

lemma roles_fixed:
  assumes "route E h req s = (r, s')"
    and "\<forall>p. protect s h = Inr (Some p) \<longrightarrow> pr_role p \<noteq> ''admin''"
    and "role_of s uid = Some ro"
  shows "role_of s' uid = Some ro"
proof (cases req)
  case (Register b)
  with assms show ?thesis by (auto dest: register_role_of)
next
  case (UpdateUser i b)
  with assms show ?thesis
    by (auto dest!: with_protect_cases dest: updateUser_role_of)
next
  case (DeleteUser i)
  with assms show ?thesis
    by (auto dest!: with_protect_cases dest: admin_only_refused)
next
  case (DeleteCourse i)
  with assms show ?thesis
    by (auto dest!: with_protect_cases with_authorize_cases simp: deleteCourse_role_of)
next
  case (EnrollInCourse i)
  with assms show ?thesis
    by (auto dest!: with_protect_cases simp: enrollInCourse_role_of)
next
  case (UnenrollFromCourse i)
  with assms show ?thesis
    by (auto dest!: with_protect_cases simp: unenrollFromCourse_role_of)
qed (use assms in \<open>auto dest!: with_protect_cases with_authorize_cases
       simp: role_of_def users_unchanged\<close>)

lemma two_accounts_run:
  "two_accounts E =
     \<lparr>users = [(0, \<lparr>u_email = ''eve@x.com'', u_password = bcrypt_hash E ''secret1'',
                     u_role = ''admin'', u_profile = Some 1, u_enrolledCourses = []\<rparr>),
               (2, \<lparr>u_email = ''bob@x.com'', u_password = bcrypt_hash E ''secret1'',
                     u_role = ''student'', u_profile = Some 3, u_enrolledCourses = []\<rparr>)],
      profiles = [(1, \<lparr>p_user = 0, p_firstName = ''E'', p_lastName = ''B'', p_bio = [],
                        p_avatar = [], p_phone = [], p_address = []\<rparr>),
                  (3, \<lparr>p_user = 2, p_firstName = ''B'', p_lastName = ''B'', p_bio = [],
                        p_avatar = [], p_phone = [], p_address = []\<rparr>)],
      courses = [], categories = [], reviews = [], next_id = 4\<rparr>"
  unfolding two_accounts_def register_admin_run snd_conv
  by (simp add: run_defs)

text \<open>
  C1. Whatever the request and the state, when the principal that \<open>protect\<close> resolves
  is not an administrator (no principal, or one whose stored role is not \<open>admin\<close>), every
  account stored before the request is stored after it, with the same role. This covers
  an account asking for the role \<open>admin\<close> on itself through \<open>PUT /api/users/:id\<close>. Accounts
  that the request itself creates are the subject of C10.
\<close>

theorem non_admin_requests_keep_roles:
  assumes "route E h req s = (r, s')"
    and "\<forall>p. protect s h = Inr (Some p) \<longrightarrow> pr_role p \<noteq> ''admin''"
    and "map_of (users s) uid = Some u"
  shows "\<exists>u'. map_of (users s') uid = Some u' \<and> u_role u' = u_role u"
proof -
  from assms(3) have "role_of s uid = Some (u_role u)"
    by (simp add: role_of_def)
  from roles_fixed [OF assms(1,2) this] show ?thesis
    by (auto simp: role_of_def)
qed

theorem non_admin_requests_keep_roles_witness:
  "protect (two_accounts stub_env) (bearer 2) = Inr (Some \<lparr>pr_id = 2, pr_role = ''student''\<rparr>)
   \<and> role_of (two_accounts stub_env) 2 = Some ''student''
   \<and> (\<exists>u'. map_of (users (snd (route stub_env (bearer 2) (UpdateUser 2 role_update)
                                  (two_accounts stub_env)))) 2 = Some u'
            \<and> u_role u' = ''student'')"
proof -
  let ?s = "two_accounts stub_env"
  have p: "protect ?s (bearer 2) = Inr (Some \<lparr>pr_id = 2, pr_role = ''student''\<rparr>)"
    by (simp add: two_accounts_run middleware_defs bearer_def)
  have u: "map_of (users ?s) 2 =
      Some \<lparr>u_email = ''bob@x.com'', u_password = bcrypt_hash stub_env ''secret1'',
            u_role = ''student'', u_profile = Some 3, u_enrolledCourses = []\<rparr>"
    by (simp add: two_accounts_run)
  have n: "\<forall>q. protect ?s (bearer 2) = Inr (Some q) \<longrightarrow> pr_role q \<noteq> ''admin''"
    by (simp add: p)
  have "\<exists>u'. map_of (users (snd (route stub_env (bearer 2) (UpdateUser 2 role_update) ?s))) 2
              = Some u' \<and> u_role u' = ''student''"
    using non_admin_requests_keep_roles
      [where E = stub_env and h = "bearer 2" and req = "UpdateUser 2 role_update"
         and s = "two_accounts stub_env", OF surjective_pairing n u]
    by (simp del: route.simps)
  with p u show ?thesis by (simp add: role_of_def del: route.simps)
qed


section \<open>Principal resolution\<close>

lemma student_deleted_run:
  "student_deleted E =
     \<lparr>users = [(0, \<lparr>u_email = ''eve@x.com'', u_password = bcrypt_hash E ''secret1'',
                     u_role = ''admin'', u_profile = Some 1, u_enrolledCourses = []\<rparr>)],
      profiles = [(1, \<lparr>p_user = 0, p_firstName = ''E'', p_lastName = ''B'', p_bio = [],
                        p_avatar = [], p_phone = [], p_address = []\<rparr>),
                  (3, \<lparr>p_user = 2, p_firstName = ''B'', p_lastName = ''B'', p_bio = [],
                        p_avatar = [], p_phone = [], p_address = []\<rparr>)],
      courses = [], categories = [], reviews = [], next_id = 4\<rparr>"
  unfolding student_deleted_def two_accounts_run
  by (simp add: middleware_defs deleteUser_def delete_by_id_def)

text \<open>
  C4. The student's token verifies and resolved to the student's account while it was
  stored. Once the account has been deleted, \<open>protect\<close> does not answer 401 for the same
  token: it sets \<open>req.user\<close> to \<open>null\<close> and calls the next handler, so reading another
  account and logging out are answered with 200 and \<open>/auth/me\<close> with 500, where a
  missing or malformed token is answered with 401.
\<close>

theorem protect_passes_deleted_account:
  "jwt_verify (generateToken 2) = Some 2
   \<and> protect (two_accounts E) (bearer 2) = Inr (Some \<lparr>pr_id = 2, pr_role = ''student''\<rparr>)
   \<and> map_of (users (student_deleted E)) 2 = None
   \<and> protect (student_deleted E) (bearer 2) = Inr None
   \<and> status (fst (route E (bearer 2) (GetUserById 0) (student_deleted E))) = 200
   \<and> status (fst (route E (bearer 2) Logout (student_deleted E))) = 200
   \<and> status (fst (route E (bearer 2) GetMe (student_deleted E))) = 500
   \<and> status (fst (route E NoHeader GetMe (student_deleted E))) = 401
   \<and> status (fst (route E (Bearer (Some Malformed)) GetMe (student_deleted E))) = 401"
  by (simp add: student_deleted_run two_accounts_run middleware_defs bearer_def getUserById_def
      logout_def getMe_def)

theorem protect_passes_deleted_account_witness:
  "protect (student_deleted stub_env) (bearer 2) = Inr None
   \<and> status (fst (route stub_env (bearer 2) (GetUserById 0) (student_deleted stub_env))) = 200"
  using protect_passes_deleted_account [of stub_env] by (simp del: route.simps)

section \<open>The password hash across a save\<close>

text \<open>The hook assigns a new hash to the document in memory whether or not the password
  was modified; \<open>save\<close> has resumed before that when the password was not modified.\<close>

lemma pre_save_always_hashes:
  "snd (userSchema_pre_save hash password_modified this) = this\<lparr>u_password := hash (u_password this)\<rparr>"
  by (simp add: userSchema_pre_save_def)

lemma user_save_password:
  assumes "user_save E False i doc s = Some s'" and "map_of (users s) uid = Some u"
    and "uid = i \<longrightarrow> u_password doc = u_password u"
  shows "\<exists>u'. map_of (users s') uid = Some u' \<and> u_password u' = u_password u"
  using assms
  by (auto simp: user_save_def userSchema_pre_save_def Let_def map_of_collection
      split: if_splits)

lemma updateUser_password:
  assumes "updateUser E req_user i b s = (r, s')" and "map_of (users s) uid = Some u"
  shows "\<exists>u'. map_of (users s') uid = Some u' \<and> u_password u' = u_password u"
proof (cases "map_of (users s) i")
  case None
  with assms show ?thesis by (simp add: updateUser_def)
next
  case usr: (Some user)
  show ?thesis
  proof (cases req_user)
    case None
    with usr assms show ?thesis by (simp add: updateUser_def)
  next
    case (Some p)
    define user2 where "user2 =
      (if truthy (ub_role b) \<and> pr_role p = ''admin''
       then (set_truthy (ub_email b) (\<lambda>v u. u\<lparr>u_email := email_setter v\<rparr>) user)
              \<lparr>u_role := or_empty (ub_role b)\<rparr>
       else set_truthy (ub_email b) (\<lambda>v u. u\<lparr>u_email := email_setter v\<rparr>) user)"
    have pw: "u_password user2 = u_password user"
      by (simp add: user2_def set_truthy_def split: option.splits)
    have run: "updateUser E req_user i b s =
      (if pr_id p \<noteq> i \<and> pr_role p \<noteq> ''admin'' then (Response 403 NoPayload, s)
       else case user_save E False i user2 s of
              None \<Rightarrow> (Response 400 NoPayload, s)
            | Some t \<Rightarrow> (Response 200 NoPayload, t))"
      by (simp add: updateUser_def usr Some user2_def Let_def)
    show ?thesis
    proof (cases "s' = s")
      case True
      with assms show ?thesis by simp
    next
      case False
      with assms(1) have sv: "user_save E False i user2 s = Some s'"
        unfolding run by (auto split: if_splits option.splits)
      from usr assms(2) pw have "uid = i \<longrightarrow> u_password user2 = u_password u"
        by auto
      with sv assms(2) show ?thesis by (rule user_save_password)
    qed
  qed
qed

lemma user_create_hashes:
  "user_create E doc s = Some (k, s') \<Longrightarrow>
     users s' = users s @ [(next_id s, doc\<lparr>u_password := bcrypt_hash E (u_password doc)\<rparr>)]"
  by (auto simp: user_create_def userSchema_pre_save_def Let_def insert_doc_def split: if_splits)

lemma email_update_run:
  "route stub_env (bearer 2) (UpdateUser 2 email_update) (two_accounts stub_env) =
     (Response 200 NoPayload,
      \<lparr>users = [(0, \<lparr>u_email = ''eve@x.com'', u_password = ''$2a$10$secret1'',
                     u_role = ''admin'', u_profile = Some 1, u_enrolledCourses = []\<rparr>),
               (2, \<lparr>u_email = ''new@x.com'', u_password = ''$2a$10$secret1'',
                     u_role = ''student'', u_profile = Some 3, u_enrolledCourses = []\<rparr>)],
      profiles = [(1, \<lparr>p_user = 0, p_firstName = ''E'', p_lastName = ''B'', p_bio = [],
                        p_avatar = [], p_phone = [], p_address = []\<rparr>),
                  (3, \<lparr>p_user = 2, p_firstName = ''B'', p_lastName = ''B'', p_bio = [],
                        p_avatar = [], p_phone = [], p_address = []\<rparr>)],
      courses = [], categories = [], reviews = [], next_id = 4\<rparr>)"
  unfolding two_accounts_run
  by (simp add: run_defs bearer_def email_update_def stub_env_def)

text \<open>
  C2. A save of a stored account whose password was not modified leaves the stored hash
  as it was: for \<open>user.save()\<close> itself, whatever else the document changes, and for every
  \<open>PUT /api/users/:id\<close> request, the only handler that saves a stored account, for every
  account. The hash is computed when the account is created: \<open>User.create\<close> stores the hash
  of the password it is given.
\<close>

theorem unmodified_password_keeps_hash:
  "(user_save E False i doc s = Some s' \<and> map_of (users s) i = Some u
      \<and> u_password doc = u_password u
      \<longrightarrow> (\<exists>u'. map_of (users s') i = Some u' \<and> u_password u' = u_password u))
   \<and> (route E h (UpdateUser j b) s = (r, t) \<and> map_of (users s) uid = Some v
      \<longrightarrow> (\<exists>v'. map_of (users t) uid = Some v' \<and> u_password v' = u_password v))
   \<and> (user_create E new s = Some (k, c)
      \<longrightarrow> users c = users s @ [(next_id s, new\<lparr>u_password := bcrypt_hash E (u_password new)\<rparr>)])"
proof (intro conjI impI)
  assume "user_save E False i doc s = Some s' \<and> map_of (users s) i = Some u
      \<and> u_password doc = u_password u"
  then show "\<exists>u'. map_of (users s') i = Some u' \<and> u_password u' = u_password u"
    using user_save_password [of E i doc s s' i u] by simp
next
  assume a: "route E h (UpdateUser j b) s = (r, t) \<and> map_of (users s) uid = Some v"
  then have "t = s \<or> (\<exists>q. updateUser E q j b s = (r, t))"
    by (auto dest: with_protect_cases)
  with a show "\<exists>v'. map_of (users t) uid = Some v' \<and> u_password v' = u_password v"
    by (auto dest: updateUser_password)
next
  assume "user_create E new s = Some (k, c)"
  then show "users c = users s @ [(next_id s, new\<lparr>u_password := bcrypt_hash E (u_password new)\<rparr>)]"
    by (rule user_create_hashes)
qed

theorem unmodified_password_keeps_hash_witness:
  "map_option u_password (map_of (users (two_accounts stub_env)) 2) = Some ''$2a$10$secret1''
   \<and> status (fst (route stub_env (bearer 2) (UpdateUser 2 email_update) (two_accounts stub_env))) = 200
   \<and> map_option u_email
        (map_of (users (snd (route stub_env (bearer 2) (UpdateUser 2 email_update)
                               (two_accounts stub_env)))) 2) = Some ''new@x.com''
   \<and> (\<exists>v'. map_of (users (snd (route stub_env (bearer 2) (UpdateUser 2 email_update)
                                  (two_accounts stub_env)))) 2 = Some v'
            \<and> u_password v' = ''$2a$10$secret1'')"
proof -
  let ?s = "two_accounts stub_env"
  let ?v = "\<lparr>u_email = ''bob@x.com'', u_password = ''$2a$10$secret1'',
             u_role = ''student'', u_profile = Some 3, u_enrolledCourses = []\<rparr>"
  have v: "map_of (users ?s) 2 = Some ?v"
    by (simp add: two_accounts_run stub_env_def)
  have "\<exists>v'. map_of (users (snd (route stub_env (bearer 2) (UpdateUser 2 email_update) ?s))) 2 = Some v'
            \<and> u_password v' = ''$2a$10$secret1''"
    using unmodified_password_keeps_hash
      [where E = stub_env and h = "bearer 2" and j = 2 and b = email_update and s = "two_accounts stub_env"
         and r = "fst (route stub_env (bearer 2) (UpdateUser 2 email_update) (two_accounts stub_env))"
         and t = "snd (route stub_env (bearer 2) (UpdateUser 2 email_update) (two_accounts stub_env))"
         and uid = 2 and v = ?v]
      v
    by (simp del: route.simps)
  moreover have "status (fst (route stub_env (bearer 2) (UpdateUser 2 email_update) ?s)) = 200"
    "map_option u_email
        (map_of (users (snd (route stub_env (bearer 2) (UpdateUser 2 email_update) ?s))) 2)
       = Some ''new@x.com''"
    unfolding email_update_run by simp_all
  ultimately show ?thesis using v by (simp del: route.simps)
qed

section \<open>Enrolment\<close>

lemma validate_course_students [simp]:
  "validate_course (c\<lparr>c_enrolledStudents := xs\<rparr>) = validate_course c"
  by (simp add: validate_course_def)

lemma protect_bearer_stored:
  "map_of (users s) uid = Some u \<Longrightarrow>
     protect s (bearer uid) = Inr (Some \<lparr>pr_id = uid, pr_role = u_role u\<rparr>)"
  by (simp add: middleware_defs bearer_def)

lemma pull_absent: "x \<notin> set (pull x xs)"
  by (simp add: pull_def)

lemma set_pull: "set (pull x xs) = set xs - {x}"
  by (auto simp: pull_def)

lemma set_addToSet: "set (addToSet x xs) = insert x (set xs)"
  by (auto simp: addToSet_def)

lemma enroll_contract:
  assumes "map_of (courses s) cid = Some c" and "validate_course c"
    and "map_of (users s) uid = Some u"
    and "route E (bearer uid) (EnrollInCourse cid) s = (r, s')"
  shows "if uid \<in> set (c_enrolledStudents c) then status r = 400 \<and> s' = s
         else status r = 200
           \<and> map_of (courses s') cid = Some (c\<lparr>c_enrolledStudents := c_enrolledStudents c @ [uid]\<rparr>)
           \<and> map_of (users s') uid
               = Some (u\<lparr>u_enrolledCourses :=
                          (if cid \<in> set (u_enrolledCourses u) then u_enrolledCourses u
                           else u_enrolledCourses u @ [cid])\<rparr>)"
  using assms
  by (auto simp: with_protect_def protect_bearer_stored enrollInCourse_def Let_def map_of_collection
      addToSet_def split: if_splits)

lemma unenroll_contract:
  assumes "map_of (courses s) cid = Some c" and "validate_course c"
    and "map_of (users s) uid = Some u"
    and "route E (bearer uid) (UnenrollFromCourse cid) s = (r, s')"
  shows "if uid \<notin> set (c_enrolledStudents c) then status r = 400 \<and> s' = s
         else status r = 200
           \<and> map_of (courses s') cid
               = Some (c\<lparr>c_enrolledStudents := filter (\<lambda>j. j \<noteq> uid) (c_enrolledStudents c)\<rparr>)
           \<and> map_of (users s') uid
               = Some (u\<lparr>u_enrolledCourses := filter (\<lambda>j. j \<noteq> cid) (u_enrolledCourses u)\<rparr>)"
  using assms
  by (auto simp: with_protect_def protect_bearer_stored unenrollFromCourse_def Let_def
      map_of_collection pull_def split: if_splits)

lemma course_and_student_run:
  "course_and_student =
     \<lparr>users = [(0, \<lparr>u_email = ''ann@x.com'', u_password = ''$2a$10$secret1'',
                     u_role = ''instructor'', u_profile = Some 1, u_enrolledCourses = []\<rparr>),
               (3, \<lparr>u_email = ''bob@x.com'', u_password = ''$2a$10$secret1'',
                     u_role = ''student'', u_profile = Some 4, u_enrolledCourses = []\<rparr>)],
      profiles = [(1, \<lparr>p_user = 0, p_firstName = ''A'', p_lastName = ''B'', p_bio = [],
                        p_avatar = [], p_phone = [], p_address = []\<rparr>),
                  (4, \<lparr>p_user = 3, p_firstName = ''B'', p_lastName = ''B'', p_bio = [],
                        p_avatar = [], p_phone = [], p_address = []\<rparr>)],
      courses = [(2, \<lparr>c_title = ''Intro'', c_description = ''Basics'', c_price = 0, c_image = [],
                       c_level = level_debutant, c_duration = 0, c_instructor = 0,
                       c_categories = [], c_enrolledStudents = [], c_isPublished = False\<rparr>)],
      categories = [], reviews = [], next_id = 5\<rparr>"
  unfolding course_and_student_def run_def
  by (simp add: register_instructor_run run_defs course_handler_defs bearer_def course_input_def
      stub_env_def)

text \<open>
  C7. For a stored (valid) course and the stored account sending the request with its own
  token: enrolment is answered with 400 and changes nothing exactly when the account is
  already in the course's \<open>enrolledStudents\<close>; otherwise it is answered with 200, the
  account is appended to the course's list, and the account's \<open>enrolledCourses\<close> holds the
  course afterwards: the list is left as it was when the course was in it already, and
  has the course appended once otherwise. Unenrolment is answered with 400 and
  changes nothing exactly when the account is not in the course's list; otherwise it is
  answered with 200 and every occurrence of the reference is removed on both sides, the
  other entries staying in their order.
\<close>

theorem enroll_unenroll_contract:
  assumes "map_of (courses s) cid = Some c" and "validate_course c"
    and "map_of (users s) uid = Some u"
  shows "(case route E (bearer uid) (EnrollInCourse cid) s of (r, s') \<Rightarrow>
            if uid \<in> set (c_enrolledStudents c) then status r = 400 \<and> s' = s
            else status r = 200
              \<and> map_of (courses s') cid
                  = Some (c\<lparr>c_enrolledStudents := c_enrolledStudents c @ [uid]\<rparr>)
              \<and> map_of (users s') uid
                  = Some (u\<lparr>u_enrolledCourses :=
                             (if cid \<in> set (u_enrolledCourses u) then u_enrolledCourses u
                              else u_enrolledCourses u @ [cid])\<rparr>)
              \<and> (\<exists>u'. map_of (users s') uid = Some u'
                    \<and> cid \<in> set (u_enrolledCourses u')
                    \<and> count_list (u_enrolledCourses u') cid
                        = max 1 (count_list (u_enrolledCourses u) cid)))
       \<and> (case route E (bearer uid) (UnenrollFromCourse cid) s of (r, s') \<Rightarrow>
            if uid \<notin> set (c_enrolledStudents c) then status r = 400 \<and> s' = s
            else status r = 200
              \<and> map_of (courses s') cid
                  = Some (c\<lparr>c_enrolledStudents := filter (\<lambda>j. j \<noteq> uid) (c_enrolledStudents c)\<rparr>)
              \<and> map_of (users s') uid
                  = Some (u\<lparr>u_enrolledCourses := filter (\<lambda>j. j \<noteq> cid) (u_enrolledCourses u)\<rparr>)
              \<and> (\<exists>c' u'. map_of (courses s') cid = Some c' \<and> map_of (users s') uid = Some u'
                    \<and> c_enrolledStudents c' = pull uid (c_enrolledStudents c)
                    \<and> uid \<notin> set (c_enrolledStudents c')
                    \<and> u_enrolledCourses u' = pull cid (u_enrolledCourses u)
                    \<and> cid \<notin> set (u_enrolledCourses u')))"
proof -
  obtain r1 s1 where e: "route E (bearer uid) (EnrollInCourse cid) s = (r1, s1)"
    by (cases "route E (bearer uid) (EnrollInCourse cid) s")
  obtain r2 s2 where n: "route E (bearer uid) (UnenrollFromCourse cid) s = (r2, s2)"
    by (cases "route E (bearer uid) (UnenrollFromCourse cid) s")
  have cnt: "count_list (if cid \<in> set xs then xs else xs @ [cid]) cid = max 1 (count_list xs cid)"
    for xs :: "oid list"
    by (auto simp: count_list_0_iff max_def not_less_eq_eq dest!: count_list_0_iff [THEN iffD1])
  from enroll_contract [OF assms e] unenroll_contract [OF assms n] show ?thesis
    unfolding e n by (auto simp: pull_def cnt split: if_splits)
qed

theorem enroll_unenroll_contract_witness:
  "status (fst (route stub_env (bearer 3) (EnrollInCourse 2) course_and_student)) = 200
   \<and> map_option c_enrolledStudents
        (map_of (courses (snd (route stub_env (bearer 3) (EnrollInCourse 2) course_and_student))) 2)
       = Some [3]
   \<and> map_option u_enrolledCourses
        (map_of (users (snd (route stub_env (bearer 3) (EnrollInCourse 2) course_and_student))) 3)
       = Some [2]
   \<and> status (fst (route stub_env (bearer 3) (UnenrollFromCourse 2) course_and_student)) = 400
   \<and> snd (route stub_env (bearer 3) (UnenrollFromCourse 2) course_and_student)
       = course_and_student"
proof -
  let ?c = "\<lparr>c_title = ''Intro'', c_description = ''Basics'', c_price = 0, c_image = [],
             c_level = level_debutant, c_duration = 0, c_instructor = 0,
             c_categories = [], c_enrolledStudents = [], c_isPublished = False\<rparr>"
  let ?u = "\<lparr>u_email = ''bob@x.com'', u_password = ''$2a$10$secret1'',
             u_role = ''student'', u_profile = Some 4, u_enrolledCourses = []\<rparr>"
  have c: "map_of (courses course_and_student) 2 = Some ?c"
    and u: "map_of (users course_and_student) 3 = Some ?u"
    by (simp_all add: course_and_student_run)
  have v: "validate_course ?c"
    by (simp add: validator_defs)
  from enroll_unenroll_contract [OF c v u, of stub_env] show ?thesis
    by (cases "route stub_env (bearer 3) (EnrollInCourse 2) course_and_student";
        cases "route stub_env (bearer 3) (UnenrollFromCourse 2) course_and_student")
       (simp add: addToSet_def del: route.simps)
qed


section \<open>Average rating\<close>

lemma foldl_plus_sum_list: "foldl (\<lambda>acc rating. acc + rating) a rs = a + sum_list (rs :: nat list)"
  by (induction rs arbitrary: a) simp_all

lemma round_nearest_even_bound:
  assumes "0 < d"
  shows "\<bar>(of_nat (round_nearest_even a d) :: rat) - of_nat a / of_nat d\<bar> \<le> 1 / 2"
proof -
  define q where "q = a div d"
  define r where "r = a mod d"
  have a: "a = q * d + r" and r: "r < d"
    using assms by (simp_all add: q_def r_def)
  have frac: "(of_nat a :: rat) / of_nat d = of_nat q + of_nat r / of_nat d"
    using assms by (simp add: a add_divide_distrib)
  have r0: "0 \<le> (of_nat r :: rat) / of_nat d" by simp
  have r1: "(of_nat r :: rat) / of_nat d < 1" using r assms by simp
  have "((of_nat r :: rat) / of_nat d < 1 / 2) = ((of_nat (2 * r) :: rat) < of_nat d)"
    using assms by (simp add: field_simps)
  then have h1: "(2 * r < d) = ((of_nat r :: rat) / of_nat d < 1 / 2)"
    by (simp only: of_nat_less_iff)
  have "(1 / 2 < (of_nat r :: rat) / of_nat d) = ((of_nat d :: rat) < of_nat (2 * r))"
    using assms by (simp add: field_simps)
  then have h2: "(d < 2 * r) = (1 / 2 < (of_nat r :: rat) / of_nat d)"
    by (simp only: of_nat_less_iff)
  note half = h1 h2
  define t :: rat where "t = of_nat r / of_nat d"
  have t: "0 \<le> t" "t < 1" using r0 r1 by (simp_all add: t_def)
  consider (lo) "2 * r < d" | (hi) "d < 2 * r" | (tie) "2 * r = d"
    by linarith
  then show ?thesis
  proof cases
    case lo
    then have "round_nearest_even a d = q"
      by (simp add: round_nearest_even_def Let_def q_def r_def)
    moreover from lo have "t < 1 / 2" using h1 by (simp add: t_def)
    ultimately show ?thesis using t by (simp add: frac t_def [symmetric] abs_if)
  next
    case hi
    then have "round_nearest_even a d = q + 1"
      by (simp add: round_nearest_even_def Let_def q_def r_def)
    moreover from hi have "1 / 2 < t" using h2 by (simp add: t_def)
    ultimately show ?thesis using t by (simp add: frac t_def [symmetric] abs_if)
  next
    case tie
    then have "round_nearest_even a d = q \<or> round_nearest_even a d = q + 1"
      by (simp add: round_nearest_even_def Let_def q_def r_def)
    moreover from tie have "\<not> t < 1 / 2" "\<not> 1 / 2 < t" using h1 h2 by (simp_all add: t_def)
    ultimately show ?thesis using t by (auto simp add: frac t_def [symmetric] abs_if)
  qed
qed

lemma bit_length_bounds:
  "0 < n \<Longrightarrow> 2 ^ bit_length n \<le> 2 * n \<and> n < 2 ^ bit_length n"
proof (induction n rule: bit_length.induct)
  case (1 n)
  show ?case
  proof (cases "n div 2 = 0")
    case True
    with "1.prems" have "n = 1" by (simp add: div_eq_0_iff) 
    then show ?thesis by (simp add: bit_length.simps)
  next
    case False
    with "1.IH" "1.prems" have ih: "2 ^ bit_length (n div 2) \<le> 2 * (n div 2)" "n div 2 < 2 ^ bit_length (n div 2)"
      by simp_all
    have b: "bit_length n = Suc (bit_length (n div 2))"
      using "1.prems" by (subst bit_length.simps) simp
    from ih show ?thesis unfolding b by (simp; presburger)
  qed
qed


lemma toFixed1_tenths_floor:
  "toFixed1_tenths (m, e) = nat \<lfloor>10 * double_value (m, e) + 1 / 2\<rfloor>"
proof (cases "52 \<le> e")
  case True
  define k where "k = nat (e - 52)"
  have "(2::rat) powi (e - 52) = 2 ^ k"
    using True by (simp add: power_int_def k_def)
  then have "10 * double_value (m, e) + 1 / 2 = of_int (int (10 * m * 2 ^ k)) + 1 / 2"
    by (simp add: double_value_def)
  moreover have "\<lfloor>(of_int (int (10 * m * 2 ^ k)) :: rat) + 1 / 2\<rfloor> = int (10 * m * 2 ^ k)"
    by (rule floor_unique) simp_all
  ultimately have "\<lfloor>10 * double_value (m, e) + 1 / 2\<rfloor> = int (10 * m * 2 ^ k)"
    by (simp only:)
  then have "nat \<lfloor>10 * double_value (m, e) + 1 / 2\<rfloor> = 10 * m * 2 ^ k"
    by (simp only: nat_int)
  then show ?thesis using True by (simp add: toFixed1_tenths_def k_def)
next
  case False
  define j where "j = nat (52 - e)"
  have j: "nat (53 - e) = Suc j" using False by (simp add: j_def)
  have "(2::rat) powi (e - 52) = 1 / 2 ^ j"
    using False by (simp add: power_int_def j_def inverse_eq_divide power_one_over)
  then have "10 * double_value (m, e) + 1 / 2 = of_nat (20 * m + 2 ^ j) / of_nat (2 ^ Suc j)"
    by (simp add: double_value_def field_simps)
  then have "\<lfloor>10 * double_value (m, e) + 1 / 2\<rfloor> = int ((20 * m + 2 ^ j) div 2 ^ Suc j)"
    by (simp only: floor_divide_of_nat_eq)
  then have "nat \<lfloor>10 * double_value (m, e) + 1 / 2\<rfloor> = (20 * m + 2 ^ j) div 2 ^ Suc j"
    by (simp only: nat_int)
  then show ?thesis using False by (simp add: toFixed1_tenths_def j j_def [symmetric])
qed


lemma scaled_error:
  fixes m y c q :: rat
  assumes "\<bar>m - y\<bar> \<le> 1 / 2" and "0 < c" and "q = y * c" and "c * 2 ^ 52 \<le> q"
  shows "\<bar>m * c - q\<bar> \<le> q / 2 ^ 53"
proof -
  have "\<bar>m * c - q\<bar> = \<bar>m - y\<bar> * c"
    using assms(2,3) by (simp add: abs_mult left_diff_distrib [symmetric])
  also have "\<dots> \<le> 1 / 2 * c"
    using assms(1,2) by (intro mult_right_mono) simp_all
  also have "\<dots> \<le> q / 2 ^ 53"
    using assms(4) by (simp add: field_simps)
  finally show ?thesis .
qed

lemma double_div_error:
  assumes "0 < s" and "0 < n"
  shows "\<bar>double_value (double_div s n) - of_nat s / of_nat n\<bar> \<le> (of_nat s / of_nat n) / 2 ^ 53"
proof -
  define fs where "fs = bit_length s"
  define fn where "fn = bit_length n"
  define P :: rat where "P = 2 ^ fs"
  define Q :: rat where "Q = 2 ^ fn"
  define S where "S = s * 2 ^ fn"
  define D where "D = n * 2 ^ fs"
  define q :: rat where "q = of_nat s / of_nat n"
  have pos: "0 < P" "0 < Q" "0 < D" "0 < (of_nat n :: rat)" "0 < (of_nat s :: rat)"
    using assms by (simp_all add: P_def Q_def D_def)
  have bs: "2 ^ fs \<le> 2 * s" and bn: "n < 2 ^ fn"
    using bit_length_bounds [OF assms(1)] bit_length_bounds [OF assms(2)]
    by (simp_all add: fs_def fn_def)
  have Sr: "(of_nat S :: rat) = of_nat s * Q" and Dr: "(of_nat D :: rat) = of_nat n * P"
    by (simp_all add: S_def D_def P_def Q_def)
  have pw1: "(2::rat) powi (int fs - int fn - 52) = P / (Q * 2 ^ 52)"
    by (simp add: power_int_diff P_def Q_def)
  have pw2: "(2::rat) powi (int fs - int fn - 53) = P / (Q * 2 ^ 53)"
    by (simp add: power_int_diff P_def Q_def)
  show ?thesis
  proof (cases "D \<le> S")
    case True
    define m where "m = round_nearest_even (S * 2 ^ 52) D"
    define y :: rat where "y = of_nat (S * 2 ^ 52) / of_nat D"
    have dd: "double_div s n = (m, int fs - int fn)"
      using True by (simp add: double_div_def Let_def fs_def fn_def S_def D_def m_def)
    have a: "\<bar>of_nat m - y\<bar> \<le> 1 / 2"
      unfolding m_def y_def using pos(3) by (rule round_nearest_even_bound)
    have c: "0 < P / (Q * 2 ^ 52)" using pos by simp
    have qy: "q = y * (P / (Q * 2 ^ 52))"
      using pos by (simp add: q_def y_def Sr Dr field_simps)
    have "(of_nat D :: rat) \<le> of_nat S" using True by (simp only: of_nat_le_iff)
    then have le: "P / (Q * 2 ^ 52) * 2 ^ 52 \<le> q"
      using pos by (simp add: q_def Sr Dr field_simps)
    from scaled_error [OF a c qy le] show ?thesis
      by (simp add: dd double_value_def pw1 q_def)
  next
    case False
    define m where "m = round_nearest_even (S * 2 ^ 53) D"
    define y :: rat where "y = of_nat (S * 2 ^ 53) / of_nat D"
    have dd: "double_div s n = (m, int fs - int fn - 1)"
      using False by (simp add: double_div_def Let_def fs_def fn_def S_def D_def m_def)
    have a: "\<bar>of_nat m - y\<bar> \<le> 1 / 2"
      unfolding m_def y_def using pos(3) by (rule round_nearest_even_bound)
    have c: "0 < P / (Q * 2 ^ 53)" using pos by simp
    have qy: "q = y * (P / (Q * 2 ^ 53))"
      using pos by (simp add: q_def y_def Sr Dr field_simps)
    have "n * 2 ^ fs \<le> 2 ^ fn * (2 * s)"
      using bs bn by (intro mult_mono) simp_all
    then have "(of_nat (n * 2 ^ fs) :: rat) \<le> of_nat (2 ^ fn * (2 * s))"
      by (simp only: of_nat_le_iff)
    then have "of_nat n * P \<le> 2 * of_nat s * Q"
      by (simp add: P_def Q_def mult_ac)
    then have le: "P / (Q * 2 ^ 53) * 2 ^ 52 \<le> q"
      using pos by (simp add: q_def field_simps)
    from scaled_error [OF a c qy le] show ?thesis
      by (simp add: dd double_value_def pw2 q_def)
  qed
qed


lemma tie_if_divisible:
  assumes "0 < n" and "(20 * s + n) mod (2 * n) = 0"
  shows "frac (10 * (of_nat s / of_nat n :: rat)) = 1 / 2"
proof -
  from assms(2) obtain k where k: "20 * s + n = 2 * n * k"
    by (auto simp: mod_eq_0_iff_dvd elim: dvdE)
  then have "(of_nat (20 * s + n) :: rat) = of_nat (2 * n * k)"
    by (simp only:)
  then have "10 * (of_nat s / of_nat n :: rat) = of_nat k - 1 / 2"
    using assms(1) by (simp add: field_simps)
  then have "10 * (of_nat s / of_nat n :: rat) - 1 / 2 = of_int (int k - 1)"
    by simp
  then have "10 * (of_nat s / of_nat n :: rat) - 1 / 2 \<in> \<int>"
    by (simp only: Ints_of_int)
  moreover have "(0::rat) \<le> 1 / 2" "(1 / 2 :: rat) < 1"
    by simp_all
  ultimately show ?thesis
    by (simp only: frac_unique_iff)
qed

lemma half_up_stable:
  fixes x :: rat
  assumes n: "0 < n"
    and err: "\<bar>x - of_nat s / of_nat n\<bar> \<le> (of_nat s / of_nat n) / 2 ^ 53"
    and small: "20 * s < 2 ^ 53"
    and nontie: "(20 * s + n) mod (2 * n) \<noteq> 0"
  shows "\<lfloor>10 * x + 1 / 2\<rfloor> = \<lfloor>10 * (of_nat s / of_nat n :: rat) + 1 / 2\<rfloor>"
proof -
  define q :: rat where "q = of_nat s / of_nat n"
  define K where "K = (20 * s + n) div (2 * n)"
  define r where "r = (20 * s + n) mod (2 * n)"
  have npos: "0 < (of_nat n :: rat)" using n by simp
  have r: "1 \<le> r" "r + 1 \<le> 2 * n"
    using nontie n by (simp_all add: r_def Suc_leI)
  have "20 * s + n = K * (2 * n) + r"
    unfolding K_def r_def by (rule div_mult_mod_eq [symmetric])
  then have "(of_nat (20 * s + n) :: rat) = of_nat (K * (2 * n) + r)"
    by (simp only:)
  then have split: "10 * q + 1 / 2 = of_nat K + of_nat r / (2 * of_nat n)"
    using npos by (simp add: q_def field_simps)
  have "(of_nat 1 :: rat) \<le> of_nat r" "(of_nat (r + 1) :: rat) \<le> of_nat (2 * n)"
    using r by (simp_all only: of_nat_le_iff)
  then have rr: "1 / (2 * of_nat n) \<le> (of_nat r :: rat) / (2 * of_nat n)"
    "(of_nat r :: rat) / (2 * of_nat n) \<le> 1 - 1 / (2 * of_nat n)"
    using npos by (simp_all add: field_simps)
  have "(of_nat (20 * s) :: rat) < of_nat (2 ^ 53)"
    using small by (simp only: of_nat_less_iff)
  then have "10 * (q / 2 ^ 53) < 1 / (2 * of_nat n)"
    using npos by (simp add: q_def field_simps)
  with err have d: "\<bar>10 * x - 10 * q\<bar> < 1 / (2 * of_nat n)"
    by (simp add: q_def abs_if split: if_splits)
  have inv: "0 < 1 / (2 * (of_nat n :: rat))"
    using npos by simp
  have lo: "of_nat K \<le> 10 * x + 1 / 2" and hi: "10 * x + 1 / 2 < of_nat K + 1"
    using d rr split by (simp_all add: abs_if split: if_splits)
  have qlo: "of_nat K \<le> 10 * q + 1 / 2" and qhi: "10 * q + 1 / 2 < of_nat K + 1"
    using rr split inv by linarith+
  have "\<lfloor>10 * x + 1 / 2\<rfloor> = int K"
    by (rule floor_unique) (use lo hi in simp_all)
  moreover have "\<lfloor>10 * q + 1 / 2\<rfloor> = int K"
    by (rule floor_unique) (use qlo qhi in simp_all)
  ultimately show ?thesis by (simp add: q_def)
qed

lemma averageRating_half_up:
  assumes "rs \<noteq> []" and "sum_list rs < 2 ^ 48" and "\<not> mean_on_tie rs"
  shows "averageRating (Some rs) = JString (show_tenths (mean_half_up_tenths rs))"
proof (cases "sum_list rs = 0")
  case True
  have "foldl (\<lambda>acc rating. acc + rating) 0 rs = 0"
    unfolding foldl_plus_sum_list True by simp
  then have "averageRating (Some rs) = JString (show_tenths 0)"
    using assms(1) by (simp add: averageRating_def)
  moreover have "mean_half_up_tenths rs = 0"
    unfolding mean_half_up_tenths_def True by simp
  ultimately show ?thesis by simp
next
  case False
  define s where "s = sum_list rs"
  define n where "n = length rs"
  have "0 < s" using False unfolding s_def by (rule neq0_conv [THEN iffD1])
  moreover have "0 < n" using assms(1) by (simp add: n_def)
  ultimately have pos: "0 < s" "0 < n" .
  have small: "20 * s < 2 ^ 53" using assms(2) by (simp add: s_def)
  have nontie: "(20 * s + n) mod (2 * n) \<noteq> 0"
    using assms(3) tie_if_divisible [OF pos(2), of s] by (auto simp: mean_on_tie_def s_def n_def)
  obtain m e where dd: "double_div s n = (m, e)" by (cases "double_div s n")
  have "toFixed1_tenths (double_div s n) = nat \<lfloor>10 * double_value (double_div s n) + 1 / 2\<rfloor>"
    unfolding dd by (rule toFixed1_tenths_floor)
  also have "\<dots> = nat \<lfloor>10 * (of_nat s / of_nat n :: rat) + 1 / 2\<rfloor>"
    using half_up_stable [OF pos(2) double_div_error [OF pos] small nontie] by simp
  finally have t: "toFixed1_tenths (double_div s n) = mean_half_up_tenths rs"
    by (simp add: mean_half_up_tenths_def s_def n_def)
  have fo: "foldl (\<lambda>acc rating. acc + rating) 0 rs = s"
    by (simp add: foldl_plus_sum_list s_def)
  have "averageRating (Some rs) = JString (toFixed1 (double_div s n))"
    using assms(1) pos by (simp add: averageRating_def fo n_def)
  then show ?thesis
    by (simp add: toFixed1_def t)
qed

lemma mean_5_4_5:
  "\<not> mean_on_tie [5, 4, 5]" "mean_half_up_tenths [5, 4, 5] = 47"
proof -
  have "\<lfloor>140 / 3 :: rat\<rfloor> = 46" "\<lfloor>283 / 6 :: rat\<rfloor> = 47"
    by (rule floor_unique; simp)+
  then show "\<not> mean_on_tie [5, 4, 5]" "mean_half_up_tenths [5, 4, 5] = 47"
    by (simp_all add: mean_on_tie_def mean_half_up_tenths_def frac_def)
qed

lemma round_nearest_even_exact:
  assumes "0 < d" and "d dvd a"
  shows "(of_nat (round_nearest_even a d) :: rat) = of_nat a / of_nat d"
proof -
  from assms(2) obtain k where k: "a = d * k" by (rule dvdE)
  have "round_nearest_even a d = k"
    using assms(1) by (simp add: round_nearest_even_def Let_def k)
  then show ?thesis using assms(1) by (simp add: k)
qed

lemma bit_length_le:
  assumes "0 < s" and "s < 2 ^ k"
  shows "bit_length s \<le> k"
proof (rule ccontr)
  assume "\<not> bit_length s \<le> k"
  then have "Suc k \<le> bit_length s" by simp
  then have "(2::nat) ^ Suc k \<le> 2 ^ bit_length s"
    by (intro power_increasing) simp_all
  also have "\<dots> \<le> 2 * s" using bit_length_bounds [OF assms(1)] by simp
  finally show False using assms(2) by simp
qed

lemma double_div_exact:
  assumes "0 < s" and "0 < n" and "s < 2 ^ 48" and "4 * s mod n = 0"
  shows "double_value (double_div s n) = of_nat s / of_nat n"
proof -
  define fs where "fs = bit_length s"
  define fn where "fn = bit_length n"
  define P :: rat where "P = 2 ^ fs"
  define Q :: rat where "Q = 2 ^ fn"
  define S where "S = s * 2 ^ fn"
  define D where "D = n * 2 ^ fs"
  define q :: rat where "q = of_nat s / of_nat n"
  have pos: "0 < P" "0 < Q" "0 < D" "0 < (of_nat n :: rat)" "0 < (of_nat s :: rat)"
    using assms by (simp_all add: P_def Q_def D_def)
  have fs: "fs \<le> 48" unfolding fs_def using assms(1,3) by (rule bit_length_le)
  from assms(4) obtain j where j: "4 * s = n * j"
    by (auto simp: mod_eq_0_iff_dvd elim: dvdE)
  define t where "t = 50 - fs"
  have t: "50 = fs + t" using fs by (simp add: t_def)
  have "S * 2 ^ 52 = (4 * s) * 2 ^ fn * 2 ^ 50"
    by (simp add: S_def)
  also have "\<dots> = D * (j * 2 ^ fn * 2 ^ t)"
    by (simp add: j D_def t power_add)
  finally have dv52: "D dvd S * 2 ^ 52" by simp
  then have dv53: "D dvd S * 2 ^ 53"
    by (metis dvd_mult2 mult.assoc power_Suc2 numeral_eq_Suc pred_numeral_simps(3))
  have Sr: "(of_nat S :: rat) = of_nat s * Q" and Dr: "(of_nat D :: rat) = of_nat n * P"
    by (simp_all add: S_def D_def P_def Q_def)
  have pw1: "(2::rat) powi (int fs - int fn - 52) = P / (Q * 2 ^ 52)"
    by (simp add: power_int_diff P_def Q_def)
  have pw2: "(2::rat) powi (int fs - int fn - 53) = P / (Q * 2 ^ 53)"
    by (simp add: power_int_diff P_def Q_def)
  show ?thesis
  proof (cases "D \<le> S")
    case True
    define m where "m = round_nearest_even (S * 2 ^ 52) D"
    have dd: "double_div s n = (m, int fs - int fn)"
      using True by (simp add: double_div_def Let_def fs_def fn_def S_def D_def m_def)
    have "(of_nat m :: rat) = of_nat (S * 2 ^ 52) / of_nat D"
      unfolding m_def using pos(3) dv52 by (rule round_nearest_even_exact)
    then have "of_nat m * (P / (Q * 2 ^ 52)) = q"
      using pos by (simp add: q_def Sr Dr field_simps)
    then show ?thesis
      by (simp add: dd double_value_def pw1 q_def)
  next
    case False
    define m where "m = round_nearest_even (S * 2 ^ 53) D"
    have dd: "double_div s n = (m, int fs - int fn - 1)"
      using False by (simp add: double_div_def Let_def fs_def fn_def S_def D_def m_def)
    have "(of_nat m :: rat) = of_nat (S * 2 ^ 53) / of_nat D"
      unfolding m_def using pos(3) dv53 by (rule round_nearest_even_exact)
    then have "of_nat m * (P / (Q * 2 ^ 53)) = q"
      using pos by (simp add: q_def Sr Dr field_simps)
    then show ?thesis
      by (simp add: dd double_value_def pw2 q_def)
  qed
qed

lemma divisible_if_tie:
  assumes "0 < n" and "frac (10 * (of_nat s / of_nat n :: rat)) = 1 / 2"
  shows "(20 * s + n) mod (2 * n) = 0"
proof -
  define z where "z = nat \<lfloor>10 * (of_nat s / of_nat n :: rat)\<rfloor>"
  have "0 \<le> \<lfloor>10 * (of_nat s / of_nat n :: rat)\<rfloor>" by simp
  then have z: "(of_int \<lfloor>10 * (of_nat s / of_nat n :: rat)\<rfloor> :: rat) = of_nat z"
    by (simp add: z_def)
  from assms(2) have "10 * (of_nat s / of_nat n :: rat) = of_nat z + 1 / 2"
    unfolding frac_def z by simp
  then have "(of_nat (20 * s + n) :: rat) = of_nat (2 * n * (z + 1))"
    using assms(1) by (simp add: field_simps)
  then have "20 * s + n = 2 * n * (z + 1)"
    by (simp only: of_nat_eq_iff)
  then show ?thesis by simp
qed

lemma half_up_tie:
  fixes x :: rat
  assumes n: "0 < n"
    and err: "\<bar>x - of_nat s / of_nat n\<bar> \<le> (of_nat s / of_nat n) / 2 ^ 53"
    and small: "20 * s < 2 ^ 53"
    and tie: "(20 * s + n) mod (2 * n) = 0"
  shows "\<lfloor>10 * x + 1 / 2\<rfloor>
           = \<lfloor>10 * (of_nat s / of_nat n :: rat) + 1 / 2\<rfloor> - (if x < of_nat s / of_nat n then 1 else 0)"
proof -
  define q :: rat where "q = of_nat s / of_nat n"
  have npos: "0 < (of_nat n :: rat)" using n by simp
  from tie obtain K where K: "20 * s + n = 2 * n * K"
    by (auto simp: mod_eq_0_iff_dvd elim: dvdE)
  then have "(of_nat (20 * s + n) :: rat) = of_nat (2 * n * K)"
    by (simp only:)
  then have split: "10 * q + 1 / 2 = of_nat K"
    using npos by (simp add: q_def field_simps)
  have "(of_nat (20 * s) :: rat) < of_nat (2 ^ 53)"
    using small by (simp only: of_nat_less_iff)
  then have "10 * (q / 2 ^ 53) < 1 / (2 * of_nat n)"
    using npos by (simp add: q_def field_simps)
  with err have d: "\<bar>10 * x - 10 * q\<bar> < 1 / (2 * of_nat n)"
    by (simp add: q_def abs_if split: if_splits)
  have "(of_nat 1 :: rat) \<le> of_nat n" using n by (simp only: of_nat_le_iff)
  then have "1 / (2 * (of_nat n :: rat)) \<le> 1 / 2"
    using npos by (simp add: field_simps)
  with d have d2: "\<bar>10 * x - 10 * q\<bar> < 1 / 2" by linarith
  have fq: "\<lfloor>10 * q + 1 / 2\<rfloor> = int K"
    unfolding split by simp
  show ?thesis
  proof (cases "x < q")
    case True
    have "\<lfloor>10 * x + 1 / 2\<rfloor> = int K - 1"
      by (rule floor_unique) (use True d2 split in \<open>simp_all add: abs_if split: if_splits\<close>)
    with True fq show ?thesis by (simp add: q_def)
  next
    case False
    have "\<lfloor>10 * x + 1 / 2\<rfloor> = int K"
      by (rule floor_unique) (use False d2 split in \<open>simp_all add: abs_if split: if_splits\<close>)
    with False fq show ?thesis by (simp add: q_def)
  qed
qed

lemma averageRating_tenths:
  assumes "rs \<noteq> []" and "sum_list rs < 2 ^ 48"
  shows "averageRating (Some rs) =
           JString (show_tenths (if mean_on_tie rs \<and> quotient_below_mean rs
                                 then mean_half_up_tenths rs - 1 else mean_half_up_tenths rs))"
proof (cases "mean_on_tie rs")
  case False
  with assms show ?thesis by (simp add: averageRating_half_up)
next
  case True
  define s where "s = sum_list rs"
  define n where "n = length rs"
  have n: "0 < n" using assms(1) by (simp add: n_def)
  have tie: "(20 * s + n) mod (2 * n) = 0"
    using True n by (intro divisible_if_tie) (simp_all add: mean_on_tie_def s_def n_def)
  have s: "0 < s"
  proof (rule ccontr)
    assume "\<not> 0 < s"
    then have "s = 0" by simp
    with tie n show False by simp
  qed
  have small: "20 * s < 2 ^ 53" using assms(2) by (simp add: s_def)
  obtain m e where dd: "double_div s n = (m, e)" by (cases "double_div s n")
  have "toFixed1_tenths (double_div s n) = nat \<lfloor>10 * double_value (double_div s n) + 1 / 2\<rfloor>"
    unfolding dd by (rule toFixed1_tenths_floor)
  also have "\<dots> = nat (\<lfloor>10 * (of_nat s / of_nat n :: rat) + 1 / 2\<rfloor>
                      - (if double_value (double_div s n) < of_nat s / of_nat n then 1 else 0))"
    using half_up_tie [OF n double_div_error [OF s n] small tie] by simp
  also have "\<dots> = (if quotient_below_mean rs then mean_half_up_tenths rs - 1 else mean_half_up_tenths rs)"
    by (simp add: quotient_below_mean_def mean_half_up_tenths_def s_def n_def nat_diff_distrib')
  finally have t: "toFixed1_tenths (double_div s n)
      = (if quotient_below_mean rs then mean_half_up_tenths rs - 1 else mean_half_up_tenths rs)" .
  have fo: "foldl (\<lambda>acc rating. acc + rating) 0 rs = s"
    by (simp add: foldl_plus_sum_list s_def)
  have "averageRating (Some rs) = JString (toFixed1 (double_div s n))"
    using assms(1) s n by (simp add: averageRating_def fo n_def)
  then show ?thesis
    using True by (simp add: toFixed1_def t)
qed

lemma quarters_not_below:
  assumes "rs \<noteq> []" and "sum_list rs < 2 ^ 48" and "mean_in_quarters rs"
  shows "\<not> quotient_below_mean rs"
proof (cases "sum_list rs = 0")
  case True
  have "fst (double_div 0 (length rs)) = 0"
    by (simp add: double_div_def Let_def round_nearest_even_def)
  then have "double_value (double_div 0 (length rs)) = 0"
    by (cases "double_div 0 (length rs)") (simp add: double_value_def)
  then show ?thesis
    unfolding quotient_below_mean_def True by simp
next
  case False
  then have "0 < sum_list rs" by (rule neq0_conv [THEN iffD1])
  moreover have "0 < length rs" using assms(1) by simp
  ultimately have "double_value (double_div (sum_list rs) (length rs))
      = of_nat (sum_list rs) / of_nat (length rs)"
    using assms(2,3) unfolding mean_in_quarters_def by (intro double_div_exact)
  then show ?thesis by (simp add: quotient_below_mean_def)
qed

lemma mean_1_1_1_2:
  "mean_on_tie [1, 1, 1, 2]" "mean_in_quarters [1, 1, 1, 2]" "mean_half_up_tenths [1, 1, 1, 2] = 13"
proof -
  have "\<lfloor>50 / 4 :: rat\<rfloor> = 12" "\<lfloor>13 :: rat\<rfloor> = 13"
    by (rule floor_unique; simp)+
  then show "mean_on_tie [1, 1, 1, 2]" "mean_in_quarters [1, 1, 1, 2]"
    "mean_half_up_tenths [1, 1, 1, 2] = 13"
    by (simp_all add: mean_on_tie_def mean_half_up_tenths_def frac_def mean_in_quarters_def)
qed

lemma tie_ratings_below:
  "mean_on_tie tie_ratings" "quotient_below_mean tie_ratings" "\<not> mean_in_quarters tie_ratings"
proof -
  have "\<lfloor>23 / 2 :: rat\<rfloor> = 11"
    by (rule floor_unique; simp)
  then show "mean_on_tie tie_ratings" "\<not> mean_in_quarters tie_ratings"
    by (simp_all add: mean_on_tie_def mean_in_quarters_def frac_def tie_ratings_def)
  show "quotient_below_mean tie_ratings"
    by (simp add: quotient_below_mean_def tie_ratings_def double_value_def double_div_def Let_def
        round_nearest_even_def bit_length.simps power_int_minus)
qed

lemma tie_ratings_half_up: "mean_half_up_tenths tie_ratings = 12"
  by (simp add: mean_half_up_tenths_def tie_ratings_def)

text \<open>
  C8, as the code has it. For ratings whose sum is below \<open>2 ^ 48\<close> the getter reports the
  text of the mean rounded half-up to one decimal, with one exception: when the mean lies
  exactly halfway between two one-decimal values and the binary quotient lies below it,
  the text is one tenth lower. In particular the getter rounds half-up whenever the mean
  is not halfway, and on every halfway mean that is a whole number of quarters (\<open>x.25\<close> and
  \<open>x.75\<close>, the halfway means that are binary fractions). For the ratings 5, 4, 5 it reports
  the text \<open>4.7\<close>, for 1, 1, 1, 2 (mean 1.25) the text \<open>1.3\<close>; with no reviews, or with
  reviews not populated, it reports the number 0.
\<close>

theorem averageRating_half_up_except_inexact_tie:
  "(rs \<noteq> [] \<and> sum_list rs < 2 ^ 48
      \<longrightarrow> averageRating (Some rs)
            = JString (show_tenths (if mean_on_tie rs \<and> quotient_below_mean rs
                                    then mean_half_up_tenths rs - 1
                                    else mean_half_up_tenths rs)))
   \<and> (rs \<noteq> [] \<and> sum_list rs < 2 ^ 48 \<and> (\<not> mean_on_tie rs \<or> mean_in_quarters rs)
      \<longrightarrow> averageRating (Some rs) = JString (show_tenths (mean_half_up_tenths rs)))
   \<and> averageRating (Some [5, 4, 5]) = JString ''4.7''
   \<and> averageRating (Some [1, 1, 1, 2]) = JString ''1.3''
   \<and> averageRating (Some []) = JNumber 0
   \<and> averageRating None = JNumber 0"
proof -
  have "averageRating (Some [5, 4, 5]) = JString ''4.7''"
    by (simp add: rating_defs)
  moreover have "averageRating (Some [1, 1, 1, 2]) = JString ''1.3''"
    by (simp add: rating_defs)
  moreover have "averageRating (Some []) = JNumber 0" "averageRating None = JNumber 0"
    by (simp_all add: averageRating_def)
  moreover have "averageRating (Some rs) = JString (show_tenths (mean_half_up_tenths rs))"
    if "rs \<noteq> []" "sum_list rs < 2 ^ 48" "\<not> mean_on_tie rs \<or> mean_in_quarters rs"
    using averageRating_tenths [OF that(1,2)] quarters_not_below [OF that(1,2)] that(3)
    by auto
  ultimately show ?thesis
    using averageRating_tenths [of rs] by simp
qed

theorem averageRating_half_up_except_inexact_tie_witness:
  "[5, 4, 5] \<noteq> ([] :: nat list) \<and> sum_list [5, 4, 5] < (2 :: nat) ^ 48
   \<and> \<not> mean_on_tie [5, 4, 5]
   \<and> averageRating (Some [5, 4, 5]) = JString (show_tenths 47)
   \<and> sum_list [1, 1, 1, 2] < (2 :: nat) ^ 48
   \<and> mean_on_tie [1, 1, 1, 2] \<and> mean_in_quarters [1, 1, 1, 2]
   \<and> averageRating (Some [1, 1, 1, 2]) = JString (show_tenths 13)
   \<and> sum_list tie_ratings < 2 ^ 48
   \<and> mean_on_tie tie_ratings \<and> quotient_below_mean tie_ratings
   \<and> averageRating (Some tie_ratings) = JString (show_tenths (12 - 1))"
proof -
  have a: "[5, 4, 5] \<noteq> ([] :: nat list)" "sum_list [5, 4, 5] < (2 :: nat) ^ 48"
    by simp_all
  have b: "[1, 1, 1, 2] \<noteq> ([] :: nat list)" "sum_list [1, 1, 1, 2] < (2 :: nat) ^ 48"
    by simp_all
  have c: "tie_ratings \<noteq> []" "sum_list tie_ratings < 2 ^ 48"
    by (simp_all add: tie_ratings_def)
  have "averageRating (Some [5, 4, 5]) = JString (show_tenths (mean_half_up_tenths [5, 4, 5]))"
    using averageRating_half_up_except_inexact_tie [of "[5, 4, 5]"] a mean_5_4_5(1) by blast
  then have ra: "averageRating (Some [5, 4, 5]) = JString (show_tenths 47)"
    by (simp only: mean_5_4_5(2))
  have "averageRating (Some [1, 1, 1, 2]) = JString (show_tenths (mean_half_up_tenths [1, 1, 1, 2]))"
    using averageRating_half_up_except_inexact_tie [of "[1, 1, 1, 2]"] b mean_1_1_1_2(2) by blast
  then have rb: "averageRating (Some [1, 1, 1, 2]) = JString (show_tenths 13)"
    by (simp only: mean_1_1_1_2(3))
  have "averageRating (Some tie_ratings)
          = JString (show_tenths (if mean_on_tie tie_ratings \<and> quotient_below_mean tie_ratings
                                  then mean_half_up_tenths tie_ratings - 1
                                  else mean_half_up_tenths tie_ratings))"
    using averageRating_half_up_except_inexact_tie [of tie_ratings] c by blast
  then have rc: "averageRating (Some tie_ratings) = JString (show_tenths (12 - 1))"
    using tie_ratings_below(1,2) by (simp only: tie_ratings_half_up if_True simp_thms)
  from a b c ra rb rc mean_5_4_5(1) mean_1_1_1_2(1,2) tie_ratings_below(1,2)
  show ?thesis by (intro conjI)
qed

text \<open>
  C8, as the specification states it, fails: for seventeen ratings of 1 and three of 2
  the mean is 1.15, whose half-up rounding is 1.2; the double nearest to 1.15 lies below
  it, and the getter reports 1.1.
\<close>

theorem averageRating_tie_counterexample:
  "averageRating (Some tie_ratings) = JString ''1.1''
   \<and> show_tenths (mean_half_up_tenths tie_ratings) = ''1.2''
   \<and> averageRating (Some tie_ratings) \<noteq> JString (show_tenths (mean_half_up_tenths tie_ratings))"
proof -
  have "averageRating (Some tie_ratings) = JString ''1.1''"
    by (simp add: rating_defs tie_ratings_def)
  moreover have "mean_half_up_tenths tie_ratings = 12"
    by (simp add: mean_half_up_tenths_def tie_ratings_def)
  moreover have "show_tenths 12 = ''1.2''"
    by (simp add: show_tenths_def digits.simps digit_char_def)
  ultimately show ?thesis by simp
qed

section \<open>Course creation\<close>

lemma new_course_ignores_instructor:
  "new_course i (b\<lparr>cb_instructor := x\<rparr>) price cats = new_course i b price cats"
  by (simp add: new_course_def)

lemma createCourse_ignores_instructor:
  "createCourse u (b\<lparr>cb_instructor := x\<rparr>) s = createCourse u b s"
  by (simp add: createCourse_def new_course_ignores_instructor cong: option.case_cong)

lemma createCourse_result:
  "createCourse (Some p) b s = (r, s') \<Longrightarrow>
     (status r = 400 \<and> s' = s)
     \<or> (status r = 201 \<and> (\<exists>c. courses s' = courses s @ [(next_id s, c)] \<and> c_instructor c = pr_id p))"
  by (auto simp: createCourse_def new_course_def Let_def insert_doc_def add_course_to_categories_def
      split: option.splits if_splits)

text \<open>
  C9. When \<open>protect\<close> resolves a principal whose role is \<open>instructor\<close> or \<open>admin\<close>, a
  course-creation request either is rejected by validation (400, nothing stored) or stores
  one new course whose \<open>instructor\<close> is the principal's identifier; and changing the
  \<open>instructor\<close> field of the body changes neither the answer nor the resulting store.
\<close>

theorem createCourse_owner_is_principal:
  assumes "protect s h = Inr (Some p)"
    and "pr_role p = ''instructor'' \<or> pr_role p = ''admin''"
  shows "route E h (CreateCourse (b\<lparr>cb_instructor := x\<rparr>)) s = route E h (CreateCourse b) s
     \<and> (case route E h (CreateCourse b) s of (r, s') \<Rightarrow>
          (status r = 400 \<and> s' = s)
          \<or> (status r = 201
              \<and> (\<exists>c. courses s' = courses s @ [(next_id s, c)] \<and> c_instructor c = pr_id p)))"
proof -
  from assms have "route E h (CreateCourse b) s = createCourse (Some p) b s" for b
    by (auto simp: with_protect_def with_authorize_def authorize_def)
  then show ?thesis
    using createCourse_result [of p b s]
    by (cases "createCourse (Some p) b s") (simp add: createCourse_ignores_instructor del: route.simps)
qed

lemma admin_course_run:
  "route stub_env (bearer 0) (CreateCourse (course_input None None)) (two_accounts stub_env)
     = (Response 201 NoPayload,
        (two_accounts stub_env)
          \<lparr>courses := [(4, \<lparr>c_title = ''Intro'', c_description = ''Basics'', c_price = 0, c_image = [],
                       c_level = level_debutant, c_duration = 0, c_instructor = 0,
                       c_categories = [], c_enrolledStudents = [], c_isPublished = False\<rparr>)],
            next_id := 5\<rparr>)"
  unfolding two_accounts_run
  by (simp add: middleware_defs bearer_def course_handler_defs course_input_def string_defs
      validator_defs collection_defs Let_def)

theorem createCourse_owner_is_principal_witness:
  "route stub_env (bearer 0) (CreateCourse (course_input None (Some 2))) (two_accounts stub_env)
     = route stub_env (bearer 0) (CreateCourse (course_input None None)) (two_accounts stub_env)
   \<and> status (fst (route stub_env (bearer 0) (CreateCourse (course_input None (Some 2)))
                     (two_accounts stub_env))) = 201
   \<and> map_option c_instructor
        (map_of (courses (snd (route stub_env (bearer 0) (CreateCourse (course_input None (Some 2)))
                                 (two_accounts stub_env)))) 4) = Some 0"
proof -
  let ?s = "two_accounts stub_env"
  have p: "protect ?s (bearer 0) = Inr (Some \<lparr>pr_id = 0, pr_role = ''admin''\<rparr>)"
    by (simp add: two_accounts_run middleware_defs bearer_def)
  have r: "pr_role \<lparr>pr_id = 0, pr_role = ''admin''\<rparr> = ''instructor''
           \<or> pr_role \<lparr>pr_id = 0, pr_role = ''admin''\<rparr> = ''admin''"
    by simp
  have i: "course_input None (Some 2) = (course_input None None)\<lparr>cb_instructor := Some 2\<rparr>"
    by (simp add: course_input_def)
  from createCourse_owner_is_principal
    [OF p r, where E = stub_env and b = "course_input None None" and x = "Some 2"]
  have "route stub_env (bearer 0) (CreateCourse (course_input None (Some 2))) ?s
        = route stub_env (bearer 0) (CreateCourse (course_input None None)) ?s"
    unfolding i by (simp del: route.simps)
  then show ?thesis
    unfolding admin_course_run by simp
qed

end
